theory Spec2Isabelle
  imports Main "HOL-Library.Word" "HOL-Library.Monad_Syntax"
begin

unbundle bit_operations_syntax

section \<open>Wire format (src/status_udp.cc, lines 52-123)\<close>

type_synonym u8 = "8 word"
type_synonym u16 = "16 word"
type_synonym u32 = "32 word"

text \<open>
  \<^verbatim>\<open>enum Type : u8\<close>. The code only ever stores one of the nine enumerators in a
  packet; \<open>Type_code\<close> gives the byte each enumerator stands for.
\<close>

datatype Type =
    Type_Invalid
  | Unit_On
  | Unit_Off
  | Unit_AckResp
  | Unit_Join
  | Unit_Data
  | Unit_AnsReq
  | Unit_Location
  | Unit_PTTP

fun Type_code :: "Type \<Rightarrow> u8" where
  "Type_code Type_Invalid = 0"
| "Type_code Unit_On = 1"
| "Type_code Unit_Off = 2"
| "Type_code Unit_AckResp = 3"
| "Type_code Unit_Join = 4"
| "Type_code Unit_Data = 5"
| "Type_code Unit_AnsReq = 6"
| "Type_code Unit_Location = 7"
| "Type_code Unit_PTTP = 8"

text \<open>
  \<^verbatim>\<open>struct Packet\<close>, packed, 20 bytes. The two-element array \<^verbatim>\<open>char hdr[2]\<close> is a pair.
  The field \<^verbatim>\<open>typ\<close> is written \<open>typ'\<close> (the plain name is reserved in Isabelle).
\<close>

record Packet =
  hdr :: "char \<times> char"
  typ' :: Type
  len :: u8
  p25Id :: u32
  nac :: u16
  tgId :: u16
  radioId :: u32
  ts :: u32

text \<open>\<^verbatim>\<open>Packet{}\<close>: the default member initialisers.\<close>

definition Packet_default :: Packet where
  "Packet_default =
     \<lparr>hdr = (CHR ''M'', CHR ''C''), typ' = Type_Invalid, len = 5, p25Id = 0,
      nac = 0, tgId = 0, radioId = 0, ts = 0\<rparr>"

text \<open>\<^verbatim>\<open>static_assert(sizeof(Packet) == 20)\<close>\<close>

definition sizeof_Packet :: nat where
  "sizeof_Packet = 20"

text \<open>\<^verbatim>\<open>Packet::operator==\<close> (lines 89-98): seven comparisons, \<^verbatim>\<open>hdr\<close> is not among them.\<close>

definition packet_eq :: "Packet \<Rightarrow> Packet \<Rightarrow> bool" where
  "packet_eq p o' =
     (typ' p = typ' o' \<and>
      len p = len o' \<and>
      p25Id p = p25Id o' \<and>
      nac p = nac o' \<and>
      tgId p = tgId o' \<and>
      radioId p = radioId o' \<and>
      ts p = ts o')"

text \<open>Packet helpers (lines 106-123). A narrowing conversion between unsigned types is \<open>ucast\<close>.\<close>

definition p25_system_id :: "u32 \<Rightarrow> u16" where
  "p25_system_id p = ucast (drop_bit 20 p)"

definition p25_wacn :: "u32 \<Rightarrow> u32" where
  "p25_wacn p = p AND 0xFFFFF"

definition p25_nac :: "u32 \<Rightarrow> u16" where
  "p25_nac p = ucast (p AND 0x0FFF)"

definition payload_bytes :: "Packet \<Rightarrow> nat" where
  "payload_bytes p = unat (len p) * 4"

definition valid_hdr :: "Packet \<Rightarrow> bool" where
  "valid_hdr p = (fst (hdr p) = CHR ''M'' \<and> snd (hdr p) = CHR ''C'')"

definition make_p25id :: "u16 \<Rightarrow> u32 \<Rightarrow> u32" where
  "make_p25id sysId wacn = push_bit 20 (ucast (sysId AND 0x0FFF)) OR (wacn AND 0xFFFFF)"

section \<open>The operating system and the host, as seen by the plugin\<close>

text \<open>
  A socket address as \<^verbatim>\<open>getaddrinfo\<close> returns it; \<open>Sockaddr_zero\<close> is the zeroed
  \<^verbatim>\<open>sockaddr_storage\<close> of \<^verbatim>\<open>UdpTarget{}\<close>.
\<close>

datatype sockaddr =
    Sockaddr_zero
  | Sockaddr_in (sin_port: u16) (sin_addr: u32)
  | Sockaddr_in6 (sin6_port: u16) (sin6_addr: "128 word")

record UdpTarget =
  sock :: int
  addr :: sockaddr
  addrlen :: nat

definition INVALID_SOCKET :: int where
  "INVALID_SOCKET = - 1"

definition AF_INET :: int where
  "AF_INET = 2"

definition INADDR_BROADCAST :: u32 where
  "INADDR_BROADCAST = 0xFFFFFFFF"

text \<open>\<^verbatim>\<open>UdpTarget{}\<close>: value initialisation zeroes every member.\<close>

definition UdpTarget_zero :: UdpTarget where
  "UdpTarget_zero = \<lparr>sock = 0, addr = Sockaddr_zero, addrlen = 0\<rparr>"

record addrinfo =
  ai_family :: int
  ai_socktype :: int
  ai_protocol :: int
  ai_addr :: sockaddr
  ai_addrlen :: nat

text \<open>
  What the operating system answers during \<^verbatim>\<open>make_udp_target\<close>: the return code and
  result of \<^verbatim>\<open>getaddrinfo\<close>, and the descriptor returned by \<^verbatim>\<open>socket\<close>.
\<close>

record resolver =
  gai_rc :: int
  gai_res :: addrinfo
  socket_ret :: int

text \<open>
  The return codes by name. \<^verbatim>\<open>PLUGIN_SUCCESS = 0\<close> and \<^verbatim>\<open>PLUGIN_FAILURE = 1\<close> are
  declared in the file (lines 46-47); \<^verbatim>\<open>PLUGIN_FAILED\<close> (line 374) is declared by the
  host's plugin header, so its number is a parameter of \<open>rc_value\<close>.
\<close>

datatype plugin_rc = PLUGIN_SUCCESS | PLUGIN_FAILURE | PLUGIN_FAILED

fun rc_value :: "int \<Rightarrow> plugin_rc \<Rightarrow> int" where
  "rc_value host_failed PLUGIN_SUCCESS = 0"
| "rc_value host_failed PLUGIN_FAILURE = 1"
| "rc_value host_failed PLUGIN_FAILED = host_failed"

text \<open>The lines written to the log, one constructor per \<^verbatim>\<open>BOOST_LOG_TRIVIAL\<close> statement.\<close>

datatype log_entry =
    Log_destination string
  | Log_socket_not_initialized
  | Log_sendto_failed int
  | Log_failed_to_open string
  | Log_must_start_with_udp
  | Log_parse_udp_uri string string
  | Log_invalid_uri_format
  | Log_refusing_unspecified string
  | Log_getaddrinfo_failed string string int
  | Log_socket_failed

text \<open>
  The calls made to the operating system. \<open>Call_sendto\<close> carries the descriptor, the
  packet whose object representation is the datagram, \<^verbatim>\<open>data.size()\<close>, and the
  destination address with its length.
\<close>

datatype os_call =
    Call_getaddrinfo string string
  | Call_socket int int int
  | Call_setsockopt_broadcast int
  | Call_freeaddrinfo
  | Call_sendto int Packet nat sockaddr nat

section \<open>The plugin object\<close>

record Status_Udp =
  udp_dest :: string
  unit_enabled :: bool
  udp_socket :: UdpTarget
  last_packet :: Packet
  logged :: "log_entry list"
  syscalls :: "os_call list"

text \<open>The constructor \<^verbatim>\<open>Status_Udp(){}\<close> with the member initialisers of lines 133-140.\<close>

definition Status_Udp_new :: Status_Udp where
  "Status_Udp_new =
     \<lparr>udp_dest = [], unit_enabled = True, udp_socket = UdpTarget_zero,
      last_packet = Packet_default, logged = [], syscalls = []\<rparr>"

definition write_log :: "Status_Udp \<Rightarrow> log_entry \<Rightarrow> Status_Udp" where
  "write_log st e = st\<lparr>logged := logged st @ [e]\<rparr>"

definition os_invoke :: "Status_Udp \<Rightarrow> os_call \<Rightarrow> Status_Udp" where
  "os_invoke st c = st\<lparr>syscalls := syscalls st @ [c]\<rparr>"

subsection \<open>send_packet (lines 369-406)\<close>

text \<open>
  The answer of \<^verbatim>\<open>sendto\<close> is an input: the returned \<^verbatim>\<open>ssize_t\<close> and the value of
  \<^verbatim>\<open>errno\<close> afterwards.
\<close>

definition send_packet :: "Status_Udp \<Rightarrow> Packet \<Rightarrow> int \<times> int \<Rightarrow> plugin_rc \<times> Status_Udp" where
  "send_packet st packet os =
     (if sock (udp_socket st) = INVALID_SOCKET \<or> addrlen (udp_socket st) = 0 then
        (PLUGIN_FAILED, write_log st Log_socket_not_initialized)
      else if packet_eq (last_packet st) packet then
        (PLUGIN_SUCCESS, st)
      else
        let bytesSent = fst os;
            st1 = os_invoke st
                    (Call_sendto (sock (udp_socket st)) packet sizeof_Packet
                       (addr (udp_socket st)) (addrlen (udp_socket st)));
            st2 = st1\<lparr>last_packet := packet\<rparr>
        in if bytesSent = - 1 then
             (PLUGIN_FAILURE, write_log st2 (Log_sendto_failed (snd os)))
           else
             (PLUGIN_SUCCESS, st2))"

text \<open>The guard of line 371, negated: the endpoint can be used.\<close>

definition endpoint_ready :: "Status_Udp \<Rightarrow> bool" where
  "endpoint_ready st =
     (\<not> (sock (udp_socket st) = INVALID_SOCKET \<or> addrlen (udp_socket st) = 0))"

text \<open>The packets handed to \<^verbatim>\<open>sendto\<close>, in order: the datagrams.\<close>

fun datagrams :: "os_call list \<Rightarrow> Packet list" where
  "datagrams [] = []"
| "datagrams (Call_sendto s p n a l # cs) = p # datagrams cs"
| "datagrams (c # cs) = datagrams cs"

text \<open>A run of calls of \<^verbatim>\<open>send_packet\<close>, each with the answer \<^verbatim>\<open>sendto\<close> would give.\<close>

fun send_packets :: "Status_Udp \<Rightarrow> (Packet \<times> int \<times> int) list \<Rightarrow> plugin_rc list \<times> Status_Udp" where
  "send_packets st [] = ([], st)"
| "send_packets st ((packet, os) # rest) =
     (let (rc, st1) = send_packet st packet os;
          (rcs, st2) = send_packets st1 rest
      in (rc # rcs, st2))"

section \<open>Destination resolution (lines 408-491)\<close>

subsection \<open>The \<^verbatim>\<open>std::string\<close> operations that are used\<close>

text \<open>
  \<^verbatim>\<open>s.rfind(t, pos)\<close>: the greatest index not after \<open>pos\<close> at which \<open>t\<close> occurs in
  \<open>s\<close>; \<open>None\<close> is \<^verbatim>\<open>npos\<close>.
\<close>

fun rfind_from :: "string \<Rightarrow> string \<Rightarrow> nat \<Rightarrow> nat option" where
  "rfind_from s t 0 = (if take (length t) s = t then Some 0 else None)"
| "rfind_from s t (Suc i) =
     (if take (length t) (drop (Suc i) s) = t then Some (Suc i) else rfind_from s t i)"

definition rfind :: "string \<Rightarrow> string \<Rightarrow> nat \<Rightarrow> nat option" where
  "rfind s t pos =
     (if length s < length t then None else rfind_from s t (min pos (length s - length t)))"

text \<open>\<^verbatim>\<open>s.find_last_of(c)\<close>: the greatest index holding \<open>c\<close>; \<open>None\<close> is \<^verbatim>\<open>npos\<close>.\<close>

fun find_last_of :: "string \<Rightarrow> char \<Rightarrow> nat option" where
  "find_last_of [] c = None"
| "find_last_of (x # xs) c =
     (case find_last_of xs c of
        Some i \<Rightarrow> Some (Suc i)
      | None \<Rightarrow> if x = c then Some 0 else None)"

text \<open>
  \<^verbatim>\<open>s.substr(pos)\<close> and \<^verbatim>\<open>s.substr(pos, count)\<close>: both throw \<^verbatim>\<open>std::out_of_range\<close> when
  \<open>pos\<close> is beyond the size; \<open>None\<close> is the exception.
\<close>

definition substr_from :: "string \<Rightarrow> nat \<Rightarrow> string option" where
  "substr_from s pos = (if length s < pos then None else Some (drop pos s))"

definition substr :: "string \<Rightarrow> nat \<Rightarrow> nat \<Rightarrow> string option" where
  "substr s pos count = (if length s < pos then None else Some (take count (drop pos s)))"

subsection \<open>parse_udp_uri (lines 417-440)\<close>

text \<open>
  \<open>host\<close> and \<open>port\<close> are the reference parameters: the result carries the returned
  flag, their values afterwards, and the lines logged. \<open>None\<close> is an exception
  escaping from \<^verbatim>\<open>substr\<close>.
\<close>

definition parse_udp_uri ::
  "string \<Rightarrow> string \<Rightarrow> string \<Rightarrow> (bool \<times> string \<times> string \<times> log_entry list) option" where
  "parse_udp_uri uri host port =
     (let prefix = ''udp://'' in
      if rfind uri prefix 0 \<noteq> Some 0 then
        Some (False, host, port, [Log_must_start_with_udp])
      else do {
        without_scheme \<leftarrow> substr_from uri (length prefix);
        (host1, port1) \<leftarrow>
          (case find_last_of without_scheme CHR '':'' of
             None \<Rightarrow> Some (without_scheme, ''7767'')
           | Some colon \<Rightarrow> do {
               h \<leftarrow> substr without_scheme 0 colon;
               p \<leftarrow> substr_from without_scheme (colon + 1);
               Some (h, if p = [] then ''7767'' else p)
             });
        Some (host1 \<noteq> [], host1, port1, [Log_parse_udp_uri host1 port1])
      })"

subsection \<open>make_udp_target (lines 442-491)\<close>

text \<open>
  The result is the target, the lines logged and the calls made to the operating
  system, in order. The address copied by \<^verbatim>\<open>memcpy\<close> is taken whole.
\<close>

definition is_broadcast :: "addrinfo \<Rightarrow> bool" where
  "is_broadcast res =
     (ai_family res = AF_INET \<and>
      (case ai_addr res of Sockaddr_in prt a \<Rightarrow> a = INADDR_BROADCAST | _ \<Rightarrow> False))"

definition make_udp_target ::
  "string \<Rightarrow> resolver \<Rightarrow> (UdpTarget \<times> log_entry list \<times> os_call list) option" where
  "make_udp_target uri env =
     (let target = UdpTarget_zero\<lparr>sock := INVALID_SOCKET\<rparr> in
      do {
        (ok, host, port, lg) \<leftarrow> parse_udp_uri uri [] [];
        if \<not> ok then
          Some (target, lg @ [Log_invalid_uri_format], [])
        else if host = ''0.0.0.0'' \<or> host = ''::'' then
          Some (target, lg @ [Log_refusing_unspecified host], [])
        else if gai_rc env \<noteq> 0 then
          Some (target, lg @ [Log_getaddrinfo_failed host port (gai_rc env)],
                [Call_getaddrinfo host port])
        else
          let res = gai_res env;
              target1 = target\<lparr>sock := socket_ret env\<rparr>;
              calls1 = [Call_getaddrinfo host port,
                        Call_socket (ai_family res) (ai_socktype res) (ai_protocol res)]
          in if sock target1 = INVALID_SOCKET then
               Some (target1, lg @ [Log_socket_failed], calls1 @ [Call_freeaddrinfo])
             else
               let target2 = target1\<lparr>addr := ai_addr res, addrlen := ai_addrlen res\<rparr>;
                   calls2 = (if is_broadcast res
                             then calls1 @ [Call_setsockopt_broadcast (sock target2)]
                             else calls1)
               in Some (target2, lg, calls2 @ [Call_freeaddrinfo])
      })"

subsection \<open>open_udp_connection, start, parse_config, stop\<close>

definition open_udp_connection :: "Status_Udp \<Rightarrow> resolver \<Rightarrow> Status_Udp option" where
  "open_udp_connection st env =
     do {
       (target, lg, calls) \<leftarrow> make_udp_target (udp_dest st) env;
       let st1 = st\<lparr>udp_socket := target,
                    logged := logged st @ lg,
                    syscalls := syscalls st @ calls\<rparr>;
       Some (if sock (udp_socket st1) = INVALID_SOCKET
             then write_log st1 (Log_failed_to_open (udp_dest st))
             else st1)
     }"

definition start :: "Status_Udp \<Rightarrow> resolver \<Rightarrow> (plugin_rc \<times> Status_Udp) option" where
  "start st env = do { st1 \<leftarrow> open_udp_connection st env; Some (PLUGIN_SUCCESS, st1) }"

text \<open>
  \<^verbatim>\<open>parse_config\<close>: the argument is the string under the key \<^verbatim>\<open>destination\<close> of the
  plugin's configuration, \<open>None\<close> when the key is absent.
\<close>

definition parse_config :: "Status_Udp \<Rightarrow> string option \<Rightarrow> plugin_rc \<times> Status_Udp" where
  "parse_config st destination =
     (let st1 = st\<lparr>udp_dest := (case destination of
                                   None \<Rightarrow> ''udp://127.0.0.1:7767''
                                 | Some d \<Rightarrow> d)\<rparr>
      in (PLUGIN_SUCCESS, write_log st1 (Log_destination (udp_dest st1))))"

definition stop :: "Status_Udp \<Rightarrow> plugin_rc \<times> Status_Udp" where
  "stop st = (PLUGIN_SUCCESS, st)"

section \<open>Event callbacks (lines 152-314)\<close>

text \<open>
  The host's objects, by what their getters return. The host's integer types are wider
  than the packet's fields, so the values are integers here and every store into a
  \<^verbatim>\<open>u16\<close> or \<^verbatim>\<open>u32\<close> (a parameter of \<^verbatim>\<open>make_p25id\<close> and \<^verbatim>\<open>p25_nac\<close>, a field of the
  packet) is the conversion \<open>word_of_int\<close>, which keeps the low bits.
\<close>

record System =
  get_sys_site_id :: int
  get_wacn :: int
  get_nac :: int

text \<open>
  \<open>get_stats_srcId\<close> is the result of \<^verbatim>\<open>call->get_stats().get<u32>("srcId")\<close>, \<open>None\<close>
  when the property tree throws.
\<close>

record Call =
  get_system :: System
  get_stats_srcId :: "u32 option"
  get_talkgroup :: int

text \<open>
  The first three assignments are the same in every callback: the type, the packed
  identifier and the network access code.
\<close>

definition pkt_of_system :: "Type \<Rightarrow> System \<Rightarrow> Packet" where
  "pkt_of_system t sys =
     Packet_default
       \<lparr>typ' := t,
        p25Id := make_p25id (word_of_int (get_sys_site_id sys)) (word_of_int (get_wacn sys)),
        nac := p25_nac (word_of_int (get_nac sys))\<rparr>"

text \<open>The local \<^verbatim>\<open>pkt\<close> of each callback, as it is when \<^verbatim>\<open>send_packet\<close> is called.\<close>

definition call_start_pkt :: "Call \<Rightarrow> u32 \<Rightarrow> int \<Rightarrow> Packet" where
  "call_start_pkt call source_id now =
     (pkt_of_system Unit_PTTP (get_system call))
       \<lparr>tgId := word_of_int (get_talkgroup call), radioId := source_id, ts := word_of_int now\<rparr>"

definition unit_registration_pkt :: "System \<Rightarrow> int \<Rightarrow> int \<Rightarrow> Packet" where
  "unit_registration_pkt sys source_id now =
     (pkt_of_system Unit_On sys)\<lparr>radioId := word_of_int source_id, ts := word_of_int now\<rparr>"

definition unit_deregistration_pkt :: "System \<Rightarrow> int \<Rightarrow> int \<Rightarrow> Packet" where
  "unit_deregistration_pkt sys source_id now =
     (pkt_of_system Unit_Off sys)\<lparr>radioId := word_of_int source_id, ts := word_of_int now\<rparr>"

definition unit_acknowledge_response_pkt :: "System \<Rightarrow> int \<Rightarrow> int \<Rightarrow> Packet" where
  "unit_acknowledge_response_pkt sys source_id now =
     (pkt_of_system Unit_AckResp sys)\<lparr>radioId := word_of_int source_id, ts := word_of_int now\<rparr>"

definition unit_group_affiliation_pkt :: "System \<Rightarrow> int \<Rightarrow> int \<Rightarrow> int \<Rightarrow> Packet" where
  "unit_group_affiliation_pkt sys source_id talkgroup_num now =
     (pkt_of_system Unit_Join sys)
       \<lparr>tgId := word_of_int talkgroup_num, radioId := word_of_int source_id,
        ts := word_of_int now\<rparr>"

definition unit_data_grant_pkt :: "System \<Rightarrow> int \<Rightarrow> int \<Rightarrow> Packet" where
  "unit_data_grant_pkt sys source_id now =
     (pkt_of_system Unit_Data sys)\<lparr>radioId := word_of_int source_id, ts := word_of_int now\<rparr>"

definition unit_answer_request_pkt :: "System \<Rightarrow> int \<Rightarrow> int \<Rightarrow> int \<Rightarrow> Packet" where
  "unit_answer_request_pkt sys source_id talkgroup_num now =
     (pkt_of_system Unit_AnsReq sys)
       \<lparr>tgId := word_of_int talkgroup_num, radioId := word_of_int source_id,
        ts := word_of_int now\<rparr>"

definition unit_location_pkt :: "System \<Rightarrow> int \<Rightarrow> int \<Rightarrow> int \<Rightarrow> Packet" where
  "unit_location_pkt sys source_id talkgroup_num now =
     (pkt_of_system Unit_Location sys)
       \<lparr>tgId := word_of_int talkgroup_num, radioId := word_of_int source_id,
        ts := word_of_int now\<rparr>"

text \<open>
  The callbacks. \<open>now\<close> is the value of \<^verbatim>\<open>time(NULL)\<close> and \<open>os\<close> the answer of
  \<^verbatim>\<open>sendto\<close>. \<^verbatim>\<open>call_start\<close> reads the property tree first, so it can end in an
  exception (\<open>None\<close>).
\<close>

definition call_start ::
  "Status_Udp \<Rightarrow> Call \<Rightarrow> int \<Rightarrow> int \<times> int \<Rightarrow> (plugin_rc \<times> Status_Udp) option" where
  "call_start st call now os =
     (if unit_enabled st then
        do {
          source_id \<leftarrow> get_stats_srcId call;
          Some (send_packet st (call_start_pkt call source_id now) os)
        }
      else Some (PLUGIN_SUCCESS, st))"

definition unit_registration ::
  "Status_Udp \<Rightarrow> System \<Rightarrow> int \<Rightarrow> int \<Rightarrow> int \<times> int \<Rightarrow> plugin_rc \<times> Status_Udp" where
  "unit_registration st sys source_id now os =
     (if unit_enabled st then send_packet st (unit_registration_pkt sys source_id now) os
      else (PLUGIN_SUCCESS, st))"

definition unit_deregistration ::
  "Status_Udp \<Rightarrow> System \<Rightarrow> int \<Rightarrow> int \<Rightarrow> int \<times> int \<Rightarrow> plugin_rc \<times> Status_Udp" where
  "unit_deregistration st sys source_id now os =
     (if unit_enabled st then send_packet st (unit_deregistration_pkt sys source_id now) os
      else (PLUGIN_SUCCESS, st))"

definition unit_acknowledge_response ::
  "Status_Udp \<Rightarrow> System \<Rightarrow> int \<Rightarrow> int \<Rightarrow> int \<times> int \<Rightarrow> plugin_rc \<times> Status_Udp" where
  "unit_acknowledge_response st sys source_id now os =
     (if unit_enabled st then
        send_packet st (unit_acknowledge_response_pkt sys source_id now) os
      else (PLUGIN_SUCCESS, st))"

definition unit_group_affiliation ::
  "Status_Udp \<Rightarrow> System \<Rightarrow> int \<Rightarrow> int \<Rightarrow> int \<Rightarrow> int \<times> int \<Rightarrow> plugin_rc \<times> Status_Udp" where
  "unit_group_affiliation st sys source_id talkgroup_num now os =
     (if unit_enabled st then
        send_packet st (unit_group_affiliation_pkt sys source_id talkgroup_num now) os
      else (PLUGIN_SUCCESS, st))"

definition unit_data_grant ::
  "Status_Udp \<Rightarrow> System \<Rightarrow> int \<Rightarrow> int \<Rightarrow> int \<times> int \<Rightarrow> plugin_rc \<times> Status_Udp" where
  "unit_data_grant st sys source_id now os =
     (if unit_enabled st then send_packet st (unit_data_grant_pkt sys source_id now) os
      else (PLUGIN_SUCCESS, st))"

definition unit_answer_request ::
  "Status_Udp \<Rightarrow> System \<Rightarrow> int \<Rightarrow> int \<Rightarrow> int \<Rightarrow> int \<times> int \<Rightarrow> plugin_rc \<times> Status_Udp" where
  "unit_answer_request st sys source_id talkgroup_num now os =
     (if unit_enabled st then
        send_packet st (unit_answer_request_pkt sys source_id talkgroup_num now) os
      else (PLUGIN_SUCCESS, st))"

definition unit_location ::
  "Status_Udp \<Rightarrow> System \<Rightarrow> int \<Rightarrow> int \<Rightarrow> int \<Rightarrow> int \<times> int \<Rightarrow> plugin_rc \<times> Status_Udp" where
  "unit_location st sys source_id talkgroup_num now os =
     (if unit_enabled st then
        send_packet st (unit_location_pkt sys source_id talkgroup_num now) os
      else (PLUGIN_SUCCESS, st))"

section \<open>Values and predicates used in the statements\<close>

text \<open>The target every failing path of \<^verbatim>\<open>make_udp_target\<close> returns.\<close>

definition unready_target :: UdpTarget where
  "unready_target = UdpTarget_zero\<lparr>sock := INVALID_SOCKET\<rparr>"

text \<open>
  What is proved of every packet a callback builds: the magic bytes, the length byte
  (five words, the size of the packet), a type between 1 and 8, and a NAC below 2^12.
\<close>

definition produced_ok :: "Packet \<Rightarrow> bool" where
  "produced_ok pkt =
     (hdr pkt = (CHR ''M'', CHR ''C'') \<and> valid_hdr pkt \<and>
      len pkt = 5 \<and> payload_bytes pkt = sizeof_Packet \<and>
      1 \<le> Type_code (typ' pkt) \<and> Type_code (typ' pkt) \<le> 8 \<and> typ' pkt \<noteq> Type_Invalid \<and>
      nac pkt AND 0xF000 = 0 \<and> unat (nac pkt) < 4096)"

section \<open>Concrete inputs\<close>

text \<open>A resolver that finds 127.0.0.1 port 7767 over IPv4 and a socket call that returns 3.\<close>

definition loopback_resolver :: resolver where
  "loopback_resolver =
     \<lparr>gai_rc = 0,
      gai_res = \<lparr>ai_family = 2, ai_socktype = 2, ai_protocol = 17,
                 ai_addr = Sockaddr_in 7767 0x7F000001, ai_addrlen = 16\<rparr>,
      socket_ret = 3\<rparr>"

text \<open>The same resolver when \<^verbatim>\<open>getaddrinfo\<close> fails with code -2.\<close>

definition failing_resolver :: resolver where
  "failing_resolver = loopback_resolver\<lparr>gai_rc := - 2\<rparr>"

text \<open>The plugin after \<^verbatim>\<open>parse_config\<close> without a destination key.\<close>

definition configured_plugin :: Status_Udp where
  "configured_plugin = snd (parse_config Status_Udp_new None)"

text \<open>The plugin after \<^verbatim>\<open>parse_config\<close> and a successful \<^verbatim>\<open>start\<close> (lemma \<open>start_loopback\<close>).\<close>

definition ready_plugin :: Status_Udp where
  "ready_plugin =
     \<lparr>udp_dest = ''udp://127.0.0.1:7767'', unit_enabled = True,
      udp_socket = \<lparr>sock = 3, addr = Sockaddr_in 7767 0x7F000001, addrlen = 16\<rparr>,
      last_packet = Packet_default,
      logged = [Log_destination ''udp://127.0.0.1:7767'',
                Log_parse_udp_uri ''127.0.0.1'' ''7767''],
      syscalls = [Call_getaddrinfo ''127.0.0.1'' ''7767'', Call_socket 2 2 17,
                  Call_freeaddrinfo]\<rparr>"

text \<open>The plugin after \<^verbatim>\<open>parse_config\<close> and a \<^verbatim>\<open>start\<close> whose resolution failed.\<close>

definition unready_plugin :: Status_Udp where
  "unready_plugin =
     \<lparr>udp_dest = ''udp://127.0.0.1:7767'', unit_enabled = True,
      udp_socket = \<lparr>sock = - 1, addr = Sockaddr_zero, addrlen = 0\<rparr>,
      last_packet = Packet_default,
      logged = [Log_destination ''udp://127.0.0.1:7767'',
                Log_parse_udp_uri ''127.0.0.1'' ''7767'',
                Log_getaddrinfo_failed ''127.0.0.1'' ''7767'' (- 2),
                Log_failed_to_open ''udp://127.0.0.1:7767''],
      syscalls = [Call_getaddrinfo ''127.0.0.1'' ''7767'']\<rparr>"

text \<open>A site with system id 3, WACN 0xABCDE and NAC 0x0F0, and a registration seen there.\<close>

definition site3 :: System where
  "site3 = \<lparr>get_sys_site_id = 3, get_wacn = 0xABCDE, get_nac = 0x0F0\<rparr>"

definition registered_pkt :: Packet where
  "registered_pkt = unit_registration_pkt site3 123456 1700000000"

text \<open>A call at that site on talkgroup 70000 whose statistics give the source id 7.\<close>

definition ptt_call :: Call where
  "ptt_call = \<lparr>get_system = site3, get_stats_srcId = Some 7, get_talkgroup = 70000\<rparr>"

text \<open>The same call when reading \<^verbatim>\<open>srcId\<close> from its statistics throws.\<close>

definition unreadable_call :: Call where
  "unreadable_call = ptt_call\<lparr>get_stats_srcId := None\<rparr>"

text \<open>The same registration with the length byte set to 6, and a default packet so changed.\<close>

definition oversized_pkt :: Packet where
  "oversized_pkt = registered_pkt\<lparr>len := 6\<rparr>"

definition zero_len6_pkt :: Packet where
  "zero_len6_pkt = Packet_default\<lparr>len := 6\<rparr>"

section \<open>Composite identifiers\<close>

lemma mask_FFF: "(0x0FFF :: 'a::len word) = mask 12"
  by (simp add: mask_eq_exp_minus_1)

lemma mask_FFFFF: "(0xFFFFF :: 'a::len word) = mask 20"
  by (simp add: mask_eq_exp_minus_1)

lemma p25_system_id_make_p25id: "p25_system_id (make_p25id sysId w) = sysId AND 0xFFF"
  unfolding p25_system_id_def make_p25id_def mask_FFF mask_FFFFF
  by (rule bit_word_eqI) (auto simp add: bit_simps)

lemma p25_wacn_make_p25id: "p25_wacn (make_p25id sysId w) = w AND 0xFFFFF"
  unfolding p25_wacn_def make_p25id_def mask_FFF mask_FFFFF
  by (rule bit_word_eqI) (auto simp add: bit_simps)

lemma unat_low12: "unat ((x::u16) AND mask 12) = unat x mod 4096"
  unfolding take_bit_eq_mask [symmetric] unsigned_take_bit_eq
  by (simp add: take_bit_eq_mod)

lemma unat_low20: "unat ((x::u32) AND mask 20) = unat x mod 1048576"
  unfolding take_bit_eq_mask [symmetric] unsigned_take_bit_eq
  by (simp add: take_bit_eq_mod)

lemma unat_shifted_system_id:
  "unat (push_bit 20 (ucast ((x::u16) AND mask 12)) :: u32) = (unat x mod 4096) * 1048576"
proof -
  have "unat (ucast (x AND mask 12) :: u32) = unat x mod 4096"
    using unat_low12 [of x] by (simp add: unsigned_ucast_eq take_bit_eq_mod)
  moreover have "(unat x mod 4096) * 1048576 < 2 ^ 32"
  proof -
    have "unat x mod 4096 < 4096" by simp
    then show ?thesis by simp
  qed
  ultimately show ?thesis
    unfolding unsigned_push_bit_eq
    by (simp add: push_bit_eq_mult take_bit_eq_mod)
qed

lemma unat_make_p25id:
  "unat (make_p25id sysId w) = (unat sysId mod 2 ^ 12) * 2 ^ 20 + unat w mod 2 ^ 20"
proof -
  let ?a = "push_bit 20 (ucast (sysId AND mask 12)) :: u32"
  let ?b = "w AND mask 20"
  have "?a OR ?b = ?a + ?b"
    by (rule disjunctive_add [symmetric]) (auto simp add: bit_simps)
  moreover have "unat ?a + unat ?b < 2 ^ 32"
  proof -
    have "unat sysId mod 4096 \<le> 4095" "unat w mod 1048576 < 1048576" by simp_all
    then show ?thesis unfolding unat_shifted_system_id unat_low20 by simp
  qed
  ultimately show ?thesis
    unfolding make_p25id_def mask_FFF mask_FFFFF
    by (simp add: unat_add_lem [THEN iffD1] unat_shifted_system_id unat_low20)
qed

text \<open>
  C2. Unpacking a packed composite identifier gives back the system id masked to 12
  bits and the wide-area code masked to 20 bits, for every 16-bit system id and every
  32-bit wide-area code; the packed value is the masked system id shifted left by 20,
  or-ed with the masked wide-area code, that is (system id mod 2^12) * 2^20 +
  (wide-area code mod 2^20).
\<close>

theorem composite_id_round_trip:
  "p25_system_id (make_p25id sysId w) = sysId AND 0xFFF \<and>
   p25_wacn (make_p25id sysId w) = w AND 0xFFFFF \<and>
   make_p25id sysId w = push_bit 20 (ucast (sysId AND 0xFFF)) OR (w AND 0xFFFFF) \<and>
   unat (make_p25id sysId w) = (unat sysId mod 2 ^ 12) * 2 ^ 20 + unat w mod 2 ^ 20"
  using p25_system_id_make_p25id [of sysId w] p25_wacn_make_p25id [of sysId w]
    unat_make_p25id [of sysId w]
  by (simp add: make_p25id_def)

section \<open>Dispatch: send_packet\<close>

text \<open>The three paths of \<^verbatim>\<open>send_packet\<close>, each as one equation.\<close>

lemma send_packet_unready:
  "\<not> endpoint_ready st \<Longrightarrow>
   send_packet st packet os = (PLUGIN_FAILED, write_log st Log_socket_not_initialized)"
  by (simp add: send_packet_def endpoint_ready_def)

lemma send_packet_duplicate:
  "endpoint_ready st \<Longrightarrow> packet_eq (last_packet st) packet \<Longrightarrow>
   send_packet st packet os = (PLUGIN_SUCCESS, st)"
  by (simp add: send_packet_def endpoint_ready_def)

lemma send_packet_fresh:
  "endpoint_ready st \<Longrightarrow> \<not> packet_eq (last_packet st) packet \<Longrightarrow>
   send_packet st packet os =
     (if fst os = - 1 then PLUGIN_FAILURE else PLUGIN_SUCCESS,
      st\<lparr>last_packet := packet,
         logged := (if fst os = - 1 then logged st @ [Log_sendto_failed (snd os)] else logged st),
         syscalls := syscalls st @
           [Call_sendto (sock (udp_socket st)) packet sizeof_Packet
              (addr (udp_socket st)) (addrlen (udp_socket st))]\<rparr>)"
  by (simp add: send_packet_def endpoint_ready_def Let_def write_log_def os_invoke_def)

lemma endpoint_ready_after_send [simp]:
  "endpoint_ready (snd (send_packet st packet os)) = endpoint_ready st"
  by (simp add: send_packet_def endpoint_ready_def Let_def write_log_def os_invoke_def)

lemma last_packet_after_fresh:
  "endpoint_ready st \<Longrightarrow> \<not> packet_eq (last_packet st) packet \<Longrightarrow>
   last_packet (snd (send_packet st packet os)) = packet"
  by (simp add: send_packet_fresh)

lemma datagrams_append: "datagrams (cs @ ds) = datagrams cs @ datagrams ds"
  by (induction cs rule: datagrams.induct) simp_all

lemma datagrams_after_fresh:
  "endpoint_ready st \<Longrightarrow> \<not> packet_eq (last_packet st) packet \<Longrightarrow>
   datagrams (syscalls (snd (send_packet st packet os))) = datagrams (syscalls st) @ [packet]"
  by (simp add: send_packet_fresh datagrams_append)

lemma packet_eq_refl: "packet_eq p p"
  by (simp add: packet_eq_def)

lemma packet_eq_sym: "packet_eq p q \<Longrightarrow> packet_eq q p"
  by (simp add: packet_eq_def)

lemma packet_eq_trans: "packet_eq p q \<Longrightarrow> packet_eq q r \<Longrightarrow> packet_eq p r"
  by (simp add: packet_eq_def)

lemma two_equal_packets_one_datagram:
  assumes "endpoint_ready st" and "\<not> packet_eq (last_packet st) p" and "packet_eq p q"
  shows "send_packet (snd (send_packet st p os1)) q os2 = (PLUGIN_SUCCESS, snd (send_packet st p os1))"
    and "datagrams (syscalls (snd (send_packet (snd (send_packet st p os1)) q os2))) =
         datagrams (syscalls st) @ [p]"
proof -
  let ?st1 = "snd (send_packet st p os1)"
  have "endpoint_ready ?st1" using assms(1) by simp
  moreover have "packet_eq (last_packet ?st1) q"
    using assms by (simp add: last_packet_after_fresh)
  ultimately show 1: "send_packet ?st1 q os2 = (PLUGIN_SUCCESS, ?st1)"
    by (rule send_packet_duplicate)
  show "datagrams (syscalls (snd (send_packet ?st1 q os2))) = datagrams (syscalls st) @ [p]"
    using assms by (simp add: 1 datagrams_after_fresh)
qed

lemma endpoint_ready_ready_plugin: "endpoint_ready ready_plugin"
  by (simp add: endpoint_ready_def ready_plugin_def INVALID_SOCKET_def)

lemma registered_pkt_fresh: "\<not> packet_eq (last_packet ready_plugin) registered_pkt"
  by (simp add: packet_eq_def ready_plugin_def registered_pkt_def unit_registration_pkt_def
      pkt_of_system_def Packet_default_def)

subsection \<open>Duplicate suppression\<close>

text \<open>
  C1, as the claim states it, fails: \<^verbatim>\<open>operator==\<close> compares the length byte as well.
  Two packets that agree on type, composite id, NAC, talkgroup id, radio id and
  timestamp but differ in \<^verbatim>\<open>len\<close> are not equal, and sending one after the other on a
  ready endpoint produces two datagrams.
\<close>

theorem length_is_compared_counterexample:
  "typ' registered_pkt = typ' oversized_pkt \<and>
   p25Id registered_pkt = p25Id oversized_pkt \<and>
   nac registered_pkt = nac oversized_pkt \<and>
   tgId registered_pkt = tgId oversized_pkt \<and>
   radioId registered_pkt = radioId oversized_pkt \<and>
   ts registered_pkt = ts oversized_pkt \<and>
   \<not> packet_eq registered_pkt oversized_pkt \<and>
   endpoint_ready ready_plugin \<and>
   datagrams (syscalls ready_plugin) = [] \<and>
   datagrams (syscalls (snd (send_packet (snd (send_packet ready_plugin registered_pkt (20, 0)))
      oversized_pkt (20, 0)))) = [registered_pkt, oversized_pkt]"
proof -
  let ?st1 = "snd (send_packet ready_plugin registered_pkt (20, 0))"
  have neq: "\<not> packet_eq registered_pkt oversized_pkt"
    by (simp add: packet_eq_def oversized_pkt_def registered_pkt_def unit_registration_pkt_def
        pkt_of_system_def Packet_default_def)
  have r1: "endpoint_ready ?st1" using endpoint_ready_ready_plugin by simp
  have l1: "last_packet ?st1 = registered_pkt"
    using endpoint_ready_ready_plugin registered_pkt_fresh by (rule last_packet_after_fresh)
  have d0: "datagrams (syscalls ready_plugin) = []"
    by (simp add: ready_plugin_def)
  have d1: "datagrams (syscalls ?st1) = [registered_pkt]"
    using datagrams_after_fresh [OF endpoint_ready_ready_plugin registered_pkt_fresh] d0 by simp
  have "datagrams (syscalls (snd (send_packet ?st1 oversized_pkt (20, 0)))) =
        datagrams (syscalls ?st1) @ [oversized_pkt]"
    using r1 neq by (intro datagrams_after_fresh) (simp_all add: l1)
  then show ?thesis
    using neq endpoint_ready_ready_plugin d0 d1 by (simp add: oversized_pkt_def)
qed

text \<open>
  C1, amended. Two packets are equal for deduplication iff type, length, composite id,
  NAC, talkgroup id, radio id and timestamp are all equal (only the magic bytes are left
  out); among packets of equal length this is equality of the six other fields. On a
  ready endpoint a candidate equal to the memo returns success and changes nothing: no
  call to the operating system, no log line, the memo kept. On a ready endpoint two
  equal packets sent in sequence, the first different from the memo, produce exactly
  one datagram (the first), and the second call returns success.
\<close>

theorem duplicate_suppression:
  "(packet_eq a b \<longleftrightarrow>
      typ' a = typ' b \<and> len a = len b \<and> p25Id a = p25Id b \<and> nac a = nac b \<and>
      tgId a = tgId b \<and> radioId a = radioId b \<and> ts a = ts b) \<and>
   (len a = len b \<longrightarrow>
      (packet_eq a b \<longleftrightarrow>
         typ' a = typ' b \<and> p25Id a = p25Id b \<and> nac a = nac b \<and>
         tgId a = tgId b \<and> radioId a = radioId b \<and> ts a = ts b)) \<and>
   (endpoint_ready st \<longrightarrow> packet_eq (last_packet st) p \<longrightarrow>
      send_packet st p os = (PLUGIN_SUCCESS, st)) \<and>
   (endpoint_ready st \<longrightarrow> \<not> packet_eq (last_packet st) p \<longrightarrow> packet_eq p q \<longrightarrow>
      fst (send_packet (snd (send_packet st p os)) q os2) = PLUGIN_SUCCESS \<and>
      datagrams (syscalls (snd (send_packet (snd (send_packet st p os)) q os2))) =
        datagrams (syscalls st) @ [p])"
proof (intro conjI impI)
  show "packet_eq a b \<longleftrightarrow>
      typ' a = typ' b \<and> len a = len b \<and> p25Id a = p25Id b \<and> nac a = nac b \<and>
      tgId a = tgId b \<and> radioId a = radioId b \<and> ts a = ts b"
    by (simp add: packet_eq_def)
next
  assume "len a = len b"
  then show "packet_eq a b \<longleftrightarrow>
         typ' a = typ' b \<and> p25Id a = p25Id b \<and> nac a = nac b \<and>
         tgId a = tgId b \<and> radioId a = radioId b \<and> ts a = ts b"
    by (simp add: packet_eq_def)
next
  assume "endpoint_ready st" "packet_eq (last_packet st) p"
  then show "send_packet st p os = (PLUGIN_SUCCESS, st)"
    by (rule send_packet_duplicate)
next
  assume "endpoint_ready st" "\<not> packet_eq (last_packet st) p" "packet_eq p q"
  then show "fst (send_packet (snd (send_packet st p os)) q os2) = PLUGIN_SUCCESS"
    by (simp add: two_equal_packets_one_datagram(1))
next
  assume "endpoint_ready st" "\<not> packet_eq (last_packet st) p" "packet_eq p q"
  then show "datagrams (syscalls (snd (send_packet (snd (send_packet st p os)) q os2))) =
        datagrams (syscalls st) @ [p]"
    by (rule two_equal_packets_one_datagram(2))
qed

theorem duplicate_suppression_witness:
  "endpoint_ready ready_plugin \<and> \<not> packet_eq (last_packet ready_plugin) registered_pkt \<and>
   packet_eq registered_pkt registered_pkt \<and>
   len registered_pkt = len registered_pkt \<and>
   packet_eq (last_packet ready_plugin) Packet_default \<and>
   send_packet ready_plugin Packet_default (20, 0) = (PLUGIN_SUCCESS, ready_plugin) \<and>
   fst (send_packet (snd (send_packet ready_plugin registered_pkt (20, 0))) registered_pkt (20, 0))
     = PLUGIN_SUCCESS \<and>
   datagrams (syscalls (snd (send_packet (snd (send_packet ready_plugin registered_pkt (20, 0)))
      registered_pkt (20, 0)))) = [registered_pkt]"
proof -
  have d0: "datagrams (syscalls ready_plugin) = []"
    by (simp add: ready_plugin_def)
  have m: "packet_eq (last_packet ready_plugin) Packet_default"
    by (simp add: ready_plugin_def packet_eq_def)
  show ?thesis
    using duplicate_suppression
            [of registered_pkt registered_pkt ready_plugin registered_pkt "(20, 0)"
               registered_pkt "(20, 0)"]
          duplicate_suppression
            [of registered_pkt registered_pkt ready_plugin Packet_default "(20, 0)"
               registered_pkt "(20, 0)"]
          endpoint_ready_ready_plugin registered_pkt_fresh d0 m
    by (simp add: packet_eq_refl)
qed

subsection \<open>The memo after a transmission\<close>

text \<open>
  C3. When the endpoint is ready and the candidate is not equal to the memo, the memo
  is the candidate after \<^verbatim>\<open>send_packet\<close> returns, whatever \<^verbatim>\<open>sendto\<close> returned and
  whatever \<^verbatim>\<open>errno\<close> holds; the call returns success or the send failure.
\<close>

theorem memo_updated_whatever_sendto_returns:
  "endpoint_ready st \<Longrightarrow> \<not> packet_eq (last_packet st) packet \<Longrightarrow>
   last_packet (snd (send_packet st packet (bytesSent, err))) = packet \<and>
   fst (send_packet st packet (bytesSent, err)) \<in> {PLUGIN_SUCCESS, PLUGIN_FAILURE}"
  by (simp add: send_packet_fresh)

theorem memo_updated_whatever_sendto_returns_witness:
  "endpoint_ready ready_plugin \<and> \<not> packet_eq (last_packet ready_plugin) registered_pkt \<and>
   fst (send_packet ready_plugin registered_pkt (- 1, 101)) = PLUGIN_FAILURE \<and>
   last_packet (snd (send_packet ready_plugin registered_pkt (- 1, 101))) = registered_pkt \<and>
   fst (send_packet ready_plugin registered_pkt (20, 0)) = PLUGIN_SUCCESS \<and>
   last_packet (snd (send_packet ready_plugin registered_pkt (20, 0))) = registered_pkt"
  using memo_updated_whatever_sendto_returns
          [OF endpoint_ready_ready_plugin registered_pkt_fresh, of "- 1" 101]
        memo_updated_whatever_sendto_returns
          [OF endpoint_ready_ready_plugin registered_pkt_fresh, of 20 0]
        endpoint_ready_ready_plugin registered_pkt_fresh
  by (simp add: send_packet_fresh)

subsection \<open>Reporting a failed transmission\<close>

text \<open>
  C6, as the claim states it, fails: only the return value -1 of \<^verbatim>\<open>sendto\<close> is
  tested. A short write (10 bytes of the 20) on a ready endpoint with a fresh packet
  returns \<^verbatim>\<open>PLUGIN_SUCCESS\<close>.
\<close>

theorem short_write_counterexample:
  "endpoint_ready ready_plugin \<and> \<not> packet_eq (last_packet ready_plugin) registered_pkt \<and>
   (10 :: int) < int sizeof_Packet \<and>
   fst (send_packet ready_plugin registered_pkt (10, 0)) = PLUGIN_SUCCESS"
  using endpoint_ready_ready_plugin registered_pkt_fresh
  by (simp add: send_packet_fresh sizeof_Packet_def)

text \<open>
  C6, amended. For a ready endpoint and a candidate not equal to the memo,
  \<^verbatim>\<open>send_packet\<close> returns \<^verbatim>\<open>PLUGIN_FAILURE\<close> exactly when \<^verbatim>\<open>sendto\<close> returns -1, and then
  logs the value of \<^verbatim>\<open>errno\<close> (the return value itself is the constant, it does not
  carry the error code); for every other return value of \<^verbatim>\<open>sendto\<close>, a short write
  included, it returns \<^verbatim>\<open>PLUGIN_SUCCESS\<close> and logs nothing.
\<close>

theorem send_failure_iff_minus_one:
  "endpoint_ready st \<Longrightarrow> \<not> packet_eq (last_packet st) packet \<Longrightarrow>
   fst (send_packet st packet (bytesSent, err)) =
     (if bytesSent = - 1 then PLUGIN_FAILURE else PLUGIN_SUCCESS) \<and>
   logged (snd (send_packet st packet (bytesSent, err))) =
     (if bytesSent = - 1 then logged st @ [Log_sendto_failed err] else logged st)"
  by (simp add: send_packet_fresh)

theorem send_failure_iff_minus_one_witness:
  "endpoint_ready ready_plugin \<and> \<not> packet_eq (last_packet ready_plugin) registered_pkt \<and>
   fst (send_packet ready_plugin registered_pkt (- 1, 101)) = PLUGIN_FAILURE \<and>
   logged (snd (send_packet ready_plugin registered_pkt (- 1, 101))) =
     logged ready_plugin @ [Log_sendto_failed 101] \<and>
   fst (send_packet ready_plugin registered_pkt (20, 0)) = PLUGIN_SUCCESS \<and>
   logged (snd (send_packet ready_plugin registered_pkt (20, 0))) = logged ready_plugin"
  using send_failure_iff_minus_one
          [OF endpoint_ready_ready_plugin registered_pkt_fresh, of "- 1" 101]
        send_failure_iff_minus_one
          [OF endpoint_ready_ready_plugin registered_pkt_fresh, of 20 0]
        endpoint_ready_ready_plugin registered_pkt_fresh
  by simp

section \<open>Destination resolution\<close>

subsection \<open>The string operations\<close>

lemma rfind_at_start:
  "rfind s t 0 = (if take (length t) s = t then Some 0 else None)"
  by (auto simp add: rfind_def)

lemma take_eq_iff_prefix: "take (length t) s = t \<longleftrightarrow> (\<exists>rest. s = t @ rest)"
proof
  assume "take (length t) s = t"
  then have "s = t @ drop (length t) s"
    by (metis append_take_drop_id)
  then show "\<exists>rest. s = t @ rest" ..
next
  assume "\<exists>rest. s = t @ rest"
  then show "take (length t) s = t" by auto
qed

lemma rfind_scheme: "rfind uri ''udp://'' 0 = Some 0 \<longleftrightarrow> (\<exists>rest. uri = ''udp://'' @ rest)"
  using take_eq_iff_prefix [of "''udp://''" uri] by (simp add: rfind_at_start)

lemma find_last_of_None: "find_last_of s c = None \<longleftrightarrow> c \<notin> set s"
  by (induction s) (auto split: option.splits)

lemma find_last_of_last:
  "c \<notin> set p \<Longrightarrow> find_last_of (h @ c # p) c = Some (length h)"
  by (induction h) (auto simp add: find_last_of_None [THEN iffD2] split: option.splits)

lemma find_last_of_Some:
  "find_last_of s c = Some i \<Longrightarrow> i < length s \<and> s ! i = c \<and> c \<notin> set (drop (Suc i) s)"
proof (induction s arbitrary: i)
  case Nil
  then show ?case by simp
next
  case (Cons x xs)
  then show ?case
    by (auto simp add: find_last_of_None split: option.splits if_splits)
qed

lemma substr_from_append: "substr_from (a @ b) (length a) = Some b"
  by (simp add: substr_from_def)

lemma substr_prefix: "substr (a @ b) 0 (length a) = Some a"
  by (simp add: substr_def)

lemma substr_from_after_colon: "substr_from (a @ c # b) (length a + 1) = Some b"
  by (simp add: substr_from_def)

subsection \<open>parse_udp_uri: one equation for each shape of the input\<close>

lemma parse_udp_uri_no_scheme:
  "\<not> (\<exists>rest. uri = ''udp://'' @ rest) \<Longrightarrow>
   parse_udp_uri uri host port = Some (False, host, port, [Log_must_start_with_udp])"
  using rfind_scheme [of uri] by (simp add: parse_udp_uri_def)

lemma parse_udp_uri_scheme:
  "parse_udp_uri (''udp://'' @ rest) host port =
     (case find_last_of rest CHR '':'' of
        None \<Rightarrow> Some (rest \<noteq> [], rest, ''7767'', [Log_parse_udp_uri rest ''7767''])
      | Some colon \<Rightarrow>
          substr rest 0 colon \<bind> (\<lambda>h.
          substr_from rest (colon + 1) \<bind> (\<lambda>p.
          Some (h \<noteq> [], h, (if p = [] then ''7767'' else p),
                [Log_parse_udp_uri h (if p = [] then ''7767'' else p)]))))"
proof -
  have A: "rfind (''udp://'' @ rest) ''udp://'' 0 = Some 0"
    using rfind_scheme [of "''udp://'' @ rest"] by blast
  have B: "substr_from (''udp://'' @ rest) (length ''udp://'') = Some rest"
    by (rule substr_from_append)
  show ?thesis
    unfolding parse_udp_uri_def Let_def A B
    by (cases "find_last_of rest CHR '':''") (auto split: Option.bind_splits)
qed

lemma parse_udp_uri_no_colon:
  assumes "CHR '':'' \<notin> set rest"
  shows "parse_udp_uri (''udp://'' @ rest) host port =
         Some (rest \<noteq> [], rest, ''7767'', [Log_parse_udp_uri rest ''7767''])"
proof -
  have "find_last_of rest CHR '':'' = None"
    using assms by (simp add: find_last_of_None)
  then show ?thesis
    unfolding parse_udp_uri_scheme by simp
qed

lemma parse_udp_uri_last_colon:
  assumes "CHR '':'' \<notin> set p"
  shows "parse_udp_uri (''udp://'' @ h @ '':'' @ p) host port =
         Some (h \<noteq> [], h, (if p = [] then ''7767'' else p),
               [Log_parse_udp_uri h (if p = [] then ''7767'' else p)])"
proof -
  have rest: "h @ '':'' @ p = h @ CHR '':'' # p" by simp
  have "find_last_of (h @ CHR '':'' # p) CHR '':'' = Some (length h)"
    using assms by (rule find_last_of_last)
  moreover have "substr (h @ CHR '':'' # p) 0 (length h) = Some h"
    by (rule substr_prefix)
  moreover have "substr_from (h @ CHR '':'' # p) (length h + 1) = Some p"
    by (rule substr_from_after_colon)
  ultimately show ?thesis
    unfolding parse_udp_uri_scheme rest by simp
qed

text \<open>Every string has exactly one of the three shapes, split at the last colon.\<close>

lemma uri_cases:
  obtains (no_scheme) "\<not> (\<exists>rest. uri = ''udp://'' @ rest)"
  | (no_colon) rest where "uri = ''udp://'' @ rest" "CHR '':'' \<notin> set rest"
  | (colon) h p where "uri = ''udp://'' @ h @ '':'' @ p" "CHR '':'' \<notin> set p"
proof (cases "\<exists>rest. uri = ''udp://'' @ rest")
  case False
  then show ?thesis by (rule no_scheme)
next
  case True
  then obtain rest where r: "uri = ''udp://'' @ rest" ..
  show ?thesis
  proof (cases "CHR '':'' \<in> set rest")
    case False
    with r show ?thesis by (rule no_colon)
  next
    case True
    then obtain h p where "rest = h @ CHR '':'' # p" "CHR '':'' \<notin> set p"
      by (meson split_list_last)
    with r have "uri = ''udp://'' @ h @ '':'' @ p" by simp
    then show ?thesis using \<open>CHR '':'' \<notin> set p\<close> by (rule colon)
  qed
qed

text \<open>No exception escapes: the positions given to \<^verbatim>\<open>substr\<close> are always in range.\<close>

lemma parse_udp_uri_total: "\<exists>ok h p lg. parse_udp_uri uri host port = Some (ok, h, p, lg)"
proof (cases uri rule: uri_cases)
  case no_scheme
  then have "parse_udp_uri uri host port = Some (False, host, port, [Log_must_start_with_udp])"
    by (rule parse_udp_uri_no_scheme)
  then show ?thesis by blast
next
  case (no_colon rest)
  show ?thesis
    unfolding no_colon(1) parse_udp_uri_no_colon [OF no_colon(2)] by blast
next
  case (colon h p)
  show ?thesis
    unfolding colon(1) parse_udp_uri_last_colon [OF colon(2)] by blast
qed

lemma parse_udp_uri_flag:
  assumes "parse_udp_uri uri [] [] = Some (ok, h, p, lg)"
  shows "ok \<longleftrightarrow> h \<noteq> []"
proof (cases uri rule: uri_cases)
  case no_scheme
  then have "parse_udp_uri uri [] [] = Some (False, [], [], [Log_must_start_with_udp])"
    by (rule parse_udp_uri_no_scheme)
  with assms show ?thesis by simp
next
  case (no_colon rest)
  from assms show ?thesis
    unfolding no_colon(1) parse_udp_uri_no_colon [OF no_colon(2)] by auto
next
  case (colon h' p')
  from assms show ?thesis
    unfolding colon(1) parse_udp_uri_last_colon [OF colon(2)] by auto
qed

subsection \<open>make_udp_target and start\<close>

lemma make_udp_target_parsed:
  assumes "parse_udp_uri uri [] [] = Some (ok, host, port, lg)"
  shows "make_udp_target uri env =
     Some (if \<not> ok then (unready_target, lg @ [Log_invalid_uri_format], [])
      else if host = ''0.0.0.0'' \<or> host = ''::'' then
        (unready_target, lg @ [Log_refusing_unspecified host], [])
      else if gai_rc env \<noteq> 0 then
        (unready_target, lg @ [Log_getaddrinfo_failed host port (gai_rc env)],
         [Call_getaddrinfo host port])
      else if socket_ret env = INVALID_SOCKET then
        (unready_target, lg @ [Log_socket_failed],
         [Call_getaddrinfo host port,
          Call_socket (ai_family (gai_res env)) (ai_socktype (gai_res env))
            (ai_protocol (gai_res env)),
          Call_freeaddrinfo])
      else
        (\<lparr>sock = socket_ret env, addr = ai_addr (gai_res env),
          addrlen = ai_addrlen (gai_res env)\<rparr>, lg,
         [Call_getaddrinfo host port,
          Call_socket (ai_family (gai_res env)) (ai_socktype (gai_res env))
            (ai_protocol (gai_res env))] @
         (if is_broadcast (gai_res env) then [Call_setsockopt_broadcast (socket_ret env)]
          else []) @
         [Call_freeaddrinfo]))"
  unfolding make_udp_target_def Let_def assms
  by (simp add: unready_target_def UdpTarget_zero_def)

lemma make_udp_target_total: "\<exists>t lg cs. make_udp_target uri env = Some (t, lg, cs)"
proof -
  obtain ok h p lg where "parse_udp_uri uri [] [] = Some (ok, h, p, lg)"
    using parse_udp_uri_total by blast
  then show ?thesis
    by (simp add: make_udp_target_parsed)
qed

lemma make_udp_target_no_datagrams:
  assumes "make_udp_target uri env = Some (t, lg, cs)"
  shows "datagrams cs = []"
proof -
  obtain ok h p lg' where "parse_udp_uri uri [] [] = Some (ok, h, p, lg')"
    using parse_udp_uri_total by blast
  from assms show ?thesis
    unfolding make_udp_target_parsed [OF \<open>parse_udp_uri uri [] [] = Some (ok, h, p, lg')\<close>]
    by (auto split: if_splits)
qed

lemma make_udp_target_failed:
  assumes "make_udp_target uri env = Some (t, lg, cs)"
    and "(\<exists>ok h p l. parse_udp_uri uri [] [] = Some (ok, h, p, l) \<and>
            (\<not> ok \<or> h = ''0.0.0.0'' \<or> h = ''::'')) \<or>
         gai_rc env \<noteq> 0 \<or> socket_ret env = INVALID_SOCKET"
  shows "t = unready_target"
proof -
  obtain ok h p lg' where P: "parse_udp_uri uri [] [] = Some (ok, h, p, lg')"
    using parse_udp_uri_total by blast
  from assms show ?thesis
    unfolding make_udp_target_parsed [OF P] P
    by (auto split: if_splits)
qed

lemma unready_target_fields:
  "sock unready_target = INVALID_SOCKET" "addrlen unready_target = 0"
  "addr unready_target = Sockaddr_zero"
  by (simp_all add: unready_target_def UdpTarget_zero_def)

lemma start_result:
  assumes "start st env = Some (rc, st1)"
  shows "\<exists>t lg cs. make_udp_target (udp_dest st) env = Some (t, lg, cs) \<and>
           rc = PLUGIN_SUCCESS \<and> udp_socket st1 = t \<and> last_packet st1 = last_packet st \<and>
           syscalls st1 = syscalls st @ cs \<and> unit_enabled st1 = unit_enabled st \<and>
           udp_dest st1 = udp_dest st"
proof -
  obtain t lg cs where M: "make_udp_target (udp_dest st) env = Some (t, lg, cs)"
    using make_udp_target_total by blast
  from assms show ?thesis
    unfolding start_def open_udp_connection_def M
    by (auto simp add: write_log_def Let_def split: if_splits)
qed

lemma start_total: "\<exists>st1. start st env = Some (PLUGIN_SUCCESS, st1)"
proof -
  obtain t lg cs where M: "make_udp_target (udp_dest st) env = Some (t, lg, cs)"
    using make_udp_target_total by blast
  show ?thesis
    unfolding start_def open_udp_connection_def M by (simp add: Let_def)
qed

lemma endpoint_ready_write_log [simp]: "endpoint_ready (write_log st e) = endpoint_ready st"
  by (simp add: endpoint_ready_def write_log_def)

lemma send_packets_unready:
  "\<not> endpoint_ready st \<Longrightarrow>
   send_packets st ds =
     (replicate (length ds) PLUGIN_FAILED,
      st\<lparr>logged := logged st @ replicate (length ds) Log_socket_not_initialized\<rparr>)"
proof (induction ds arbitrary: st)
  case Nil
  then show ?case by simp
next
  case (Cons d ds)
  obtain packet os where d: "d = (packet, os)" by (cases d)
  have "\<not> endpoint_ready (write_log st Log_socket_not_initialized)"
    using Cons.prems by simp
  from Cons.IH [OF this] Cons.prems show ?case
    by (simp add: d send_packet_unready write_log_def replicate_append_same [symmetric]
        del: replicate.simps) (simp add: replicate_append_same)
qed

subsection \<open>The two concrete start-ups\<close>

lemma parse_default_destination:
  "parse_udp_uri ''udp://127.0.0.1:7767'' [] [] =
   Some (True, ''127.0.0.1'', ''7767'', [Log_parse_udp_uri ''127.0.0.1'' ''7767''])"
  using parse_udp_uri_last_colon [of "''7767''" "''127.0.0.1''" "[]" "[]"] by simp

lemma udp_dest_configured_plugin: "udp_dest configured_plugin = ''udp://127.0.0.1:7767''"
  by (simp add: configured_plugin_def parse_config_def write_log_def)

lemma configured_plugin_eq: "snd (parse_config Status_Udp_new None) = configured_plugin"
  by (simp add: configured_plugin_def)

lemma start_loopback:
  "start configured_plugin loopback_resolver = Some (PLUGIN_SUCCESS, ready_plugin)"
  unfolding start_def open_udp_connection_def udp_dest_configured_plugin
    make_udp_target_parsed [OF parse_default_destination]
  by (simp add: loopback_resolver_def INVALID_SOCKET_def is_broadcast_def INADDR_BROADCAST_def
      configured_plugin_def parse_config_def write_log_def Status_Udp_new_def ready_plugin_def
      UdpTarget_zero_def)

lemma start_failing:
  "start configured_plugin failing_resolver = Some (PLUGIN_SUCCESS, unready_plugin)"
  unfolding start_def open_udp_connection_def udp_dest_configured_plugin
    make_udp_target_parsed [OF parse_default_destination]
  by (simp add: failing_resolver_def loopback_resolver_def INVALID_SOCKET_def
      configured_plugin_def parse_config_def write_log_def Status_Udp_new_def unready_plugin_def
      UdpTarget_zero_def unready_target_def)

section \<open>Failing fast on an endpoint that is not ready\<close>

text \<open>
  Before \<^verbatim>\<open>start\<close> the socket member is the zeroed \<^verbatim>\<open>UdpTarget{}\<close>: its descriptor is 0,
  not \<^verbatim>\<open>INVALID_SOCKET\<close>, and the endpoint is unready because the address length is 0.
\<close>

lemma never_started_is_unready:
  "\<not> endpoint_ready Status_Udp_new"
  "\<not> endpoint_ready (snd (parse_config Status_Udp_new destination))"
  "sock (udp_socket Status_Udp_new) \<noteq> INVALID_SOCKET"
  by (simp_all add: endpoint_ready_def Status_Udp_new_def UdpTarget_zero_def parse_config_def
      write_log_def INVALID_SOCKET_def Let_def)

text \<open>
  C5. When start-up resolution did not succeed (the destination does not parse, its
  host is empty or unspecified, \<^verbatim>\<open>getaddrinfo\<close> fails or \<^verbatim>\<open>socket\<close> fails), the endpoint
  is not ready after \<^verbatim>\<open>start\<close>, and every call of \<^verbatim>\<open>send_packet\<close> in any later run of
  calls returns \<^verbatim>\<open>PLUGIN_FAILED\<close> after logging that the socket is not initialised: no
  call to the operating system is made (no transmission, no new resolution), the memo
  and the socket are untouched, and the endpoint is still not ready at the end.
\<close>

theorem unready_endpoint_fails_fast:
  assumes "start st0 env = Some (rc, st)"
    and "(\<exists>ok h p l. parse_udp_uri (udp_dest st0) [] [] = Some (ok, h, p, l) \<and>
            (\<not> ok \<or> h = ''0.0.0.0'' \<or> h = ''::'')) \<or>
         gai_rc env \<noteq> 0 \<or> socket_ret env = INVALID_SOCKET"
    and "send_packets st ds = (rcs, st1)"
  shows "\<not> endpoint_ready st \<and>
         rcs = replicate (length ds) PLUGIN_FAILED \<and>
         logged st1 = logged st @ replicate (length ds) Log_socket_not_initialized \<and>
         syscalls st1 = syscalls st \<and>
         datagrams (syscalls st1) = datagrams (syscalls st) \<and>
         last_packet st1 = last_packet st \<and>
         udp_socket st1 = udp_socket st \<and>
         \<not> endpoint_ready st1"
proof -
  obtain t lg cs where M: "make_udp_target (udp_dest st0) env = Some (t, lg, cs)"
    and S: "udp_socket st = t"
    using start_result [OF assms(1)] by blast
  have "t = unready_target"
    using M assms(2) by (rule make_udp_target_failed)
  then have U: "\<not> endpoint_ready st"
    by (simp add: endpoint_ready_def S unready_target_fields)
  from assms(3) U show ?thesis
    by (auto simp add: send_packets_unready endpoint_ready_def)
qed

theorem unready_endpoint_fails_fast_witness:
  "start configured_plugin failing_resolver = Some (PLUGIN_SUCCESS, unready_plugin) \<and>
   gai_rc failing_resolver \<noteq> 0 \<and>
   send_packets unready_plugin [(registered_pkt, (20, 0)), (Packet_default, (20, 0))] =
     ([PLUGIN_FAILED, PLUGIN_FAILED],
      unready_plugin\<lparr>logged := logged unready_plugin @
         [Log_socket_not_initialized, Log_socket_not_initialized]\<rparr>) \<and>
   \<not> endpoint_ready unready_plugin \<and>
   syscalls unready_plugin = [Call_getaddrinfo ''127.0.0.1'' ''7767''] \<and>
   last_packet unready_plugin = Packet_default"
proof -
  have g: "gai_rc failing_resolver \<noteq> 0"
    by (simp add: failing_resolver_def)
  have u: "\<not> endpoint_ready unready_plugin"
    by (simp add: endpoint_ready_def unready_plugin_def INVALID_SOCKET_def)
  have s: "send_packets unready_plugin [(registered_pkt, (20, 0)), (Packet_default, (20, 0))] =
     ([PLUGIN_FAILED, PLUGIN_FAILED],
      unready_plugin\<lparr>logged := logged unready_plugin @
         [Log_socket_not_initialized, Log_socket_not_initialized]\<rparr>)"
    using send_packets_unready
            [OF u, of "[(registered_pkt, (20, 0)), (Packet_default, (20, 0))]"]
    by (simp del: send_packets.simps)
  have h: "(\<exists>ok h p l. parse_udp_uri (udp_dest configured_plugin) [] [] = Some (ok, h, p, l) \<and>
            (\<not> ok \<or> h = ''0.0.0.0'' \<or> h = ''::'')) \<or>
         gai_rc failing_resolver \<noteq> 0 \<or> socket_ret failing_resolver = INVALID_SOCKET"
    using g by simp
  show ?thesis
    using unready_endpoint_fails_fast [OF start_failing h s] start_failing g s
    by (simp add: unready_plugin_def)
qed

section \<open>The first dispatch\<close>

lemma Type_code_ge_1: "1 \<le> Type_code t \<longleftrightarrow> t \<noteq> Type_Invalid"
  by (cases t) simp_all

lemma Type_code_le_8: "Type_code t \<le> 8"
  by (cases t) simp_all

lemma last_packet_parse_config: "last_packet (snd (parse_config st d)) = last_packet st"
  by (simp add: parse_config_def write_log_def Let_def)

lemma syscalls_parse_config: "syscalls (snd (parse_config st d)) = syscalls st"
  by (simp add: parse_config_def write_log_def Let_def)

text \<open>
  C9, as the claim states it, fails for the same reason as C1: the comparison includes
  the length byte. A candidate whose type, composite id, NAC, talkgroup id, radio id
  and timestamp are all zero but whose \<^verbatim>\<open>len\<close> is 6 is transmitted on the first dispatch.
\<close>

theorem default_fields_length6_counterexample:
  "start configured_plugin loopback_resolver = Some (PLUGIN_SUCCESS, ready_plugin) \<and>
   endpoint_ready ready_plugin \<and>
   last_packet ready_plugin = Packet_default \<and>
   typ' zero_len6_pkt = Type_Invalid \<and> p25Id zero_len6_pkt = 0 \<and> nac zero_len6_pkt = 0 \<and>
   tgId zero_len6_pkt = 0 \<and> radioId zero_len6_pkt = 0 \<and> ts zero_len6_pkt = 0 \<and>
   datagrams (syscalls ready_plugin) = [] \<and>
   datagrams (syscalls (snd (send_packet ready_plugin zero_len6_pkt (20, 0)))) = [zero_len6_pkt]"
proof -
  have "\<not> packet_eq (last_packet ready_plugin) zero_len6_pkt"
    by (simp add: packet_eq_def ready_plugin_def zero_len6_pkt_def Packet_default_def)
  from datagrams_after_fresh [OF endpoint_ready_ready_plugin this, of "(20, 0)"]
  show ?thesis
    using start_loopback endpoint_ready_ready_plugin
    by (simp add: ready_plugin_def zero_len6_pkt_def Packet_default_def)
qed

text \<open>
  C9, amended. After construction, configuration and a start that leaves the endpoint
  ready, the memo is still the default packet (type 0, length 5, every other compared
  field 0) and nothing has been transmitted. On that first dispatch a candidate whose
  type, composite id, NAC, talkgroup id, radio id and timestamp are all zero and whose
  length is 5 is suppressed: success is returned and the state is unchanged. A
  candidate whose type is at least 1 is never suppressed: it is the one datagram sent,
  and it becomes the memo.
\<close>

theorem initial_memo_edge_case:
  assumes "start (snd (parse_config Status_Udp_new destination)) env = Some (rc, st)"
    and "endpoint_ready st"
  shows "last_packet Status_Udp_new = Packet_default \<and>
         last_packet st = Packet_default \<and>
         datagrams (syscalls st) = [] \<and>
         (typ' c = Type_Invalid \<and> len c = 5 \<and> p25Id c = 0 \<and> nac c = 0 \<and> tgId c = 0 \<and>
          radioId c = 0 \<and> ts c = 0 \<longrightarrow>
            send_packet st c os = (PLUGIN_SUCCESS, st)) \<and>
         (1 \<le> Type_code (typ' c) \<longrightarrow>
            datagrams (syscalls (snd (send_packet st c os))) = [c] \<and>
            last_packet (snd (send_packet st c os)) = c)"
proof -
  let ?st0 = "snd (parse_config Status_Udp_new destination)"
  obtain t lg cs where M: "make_udp_target (udp_dest ?st0) env = Some (t, lg, cs)"
    and L: "last_packet st = last_packet ?st0"
    and C: "syscalls st = syscalls ?st0 @ cs"
    using start_result [OF assms(1)] by blast
  have new: "last_packet Status_Udp_new = Packet_default"
    by (simp add: Status_Udp_new_def)
  have memo: "last_packet st = Packet_default"
    by (simp add: L last_packet_parse_config new)
  have none: "datagrams (syscalls st) = []"
    using make_udp_target_no_datagrams [OF M]
    by (simp add: C syscalls_parse_config Status_Udp_new_def datagrams_append)
  have dup: "send_packet st c os = (PLUGIN_SUCCESS, st)"
    if "typ' c = Type_Invalid \<and> len c = 5 \<and> p25Id c = 0 \<and> nac c = 0 \<and> tgId c = 0 \<and>
        radioId c = 0 \<and> ts c = 0"
  proof -
    have "packet_eq (last_packet st) c"
      using that by (simp add: memo packet_eq_def Packet_default_def)
    with assms(2) show ?thesis by (rule send_packet_duplicate)
  qed
  have fresh: "datagrams (syscalls (snd (send_packet st c os))) = [c] \<and>
               last_packet (snd (send_packet st c os)) = c"
    if "1 \<le> Type_code (typ' c)"
  proof -
    have "typ' c \<noteq> Type_Invalid"
      using that by (simp add: Type_code_ge_1)
    then have "\<not> packet_eq (last_packet st) c"
      by (auto simp add: memo packet_eq_def Packet_default_def)
    with assms(2) show ?thesis
      by (simp add: datagrams_after_fresh last_packet_after_fresh none)
  qed
  from new memo none dup fresh show ?thesis by blast
qed

theorem initial_memo_edge_case_witness:
  "start (snd (parse_config Status_Udp_new None)) loopback_resolver =
     Some (PLUGIN_SUCCESS, ready_plugin) \<and>
   endpoint_ready ready_plugin \<and>
   last_packet ready_plugin = Packet_default \<and>
   send_packet ready_plugin Packet_default (20, 0) = (PLUGIN_SUCCESS, ready_plugin) \<and>
   1 \<le> Type_code (typ' registered_pkt) \<and>
   datagrams (syscalls (snd (send_packet ready_plugin registered_pkt (20, 0)))) =
     [registered_pkt]"
proof -
  have s: "start (snd (parse_config Status_Udp_new None)) loopback_resolver =
     Some (PLUGIN_SUCCESS, ready_plugin)"
    unfolding configured_plugin_eq by (rule start_loopback)
  have t: "1 \<le> Type_code (typ' registered_pkt)"
    by (simp add: registered_pkt_def unit_registration_pkt_def pkt_of_system_def)
  show ?thesis
    using initial_memo_edge_case [OF s endpoint_ready_ready_plugin, of Packet_default "(20, 0)"]
      initial_memo_edge_case [OF s endpoint_ready_ready_plugin, of registered_pkt "(20, 0)"]
      s t endpoint_ready_ready_plugin
    by (simp add: Packet_default_def)
qed

section \<open>Parsing the destination\<close>

lemma make_udp_target_no_scheme:
  assumes "\<not> (\<exists>rest. uri = ''udp://'' @ rest)"
  shows "make_udp_target uri env =
         Some (unready_target, [Log_must_start_with_udp, Log_invalid_uri_format], [])"
  using make_udp_target_parsed [OF parse_udp_uri_no_scheme [OF assms, of "[]" "[]"], of env]
  by simp

text \<open>
  C4. \<^verbatim>\<open>parse_udp_uri\<close> returns for every string (no exception escapes). A string that
  does not begin with \<^verbatim>\<open>udp://\<close> fails: the flag is false, host and port are left as
  they were, and \<^verbatim>\<open>make_udp_target\<close> gives the unready target after logging the invalid
  format, without calling the resolver. Otherwise, when the remainder has no colon it is
  the host and the port is 7767; when it has one, the host is what precedes the last
  colon and the port what follows it, 7767 when that is empty. The flag is true exactly
  when the host is not empty, so an empty host fails as an invalid format; a host equal
  to 0.0.0.0 or :: is refused as unspecified, again without calling the resolver.
\<close>

theorem destination_uri_parsing:
  "(\<exists>ok host port lg. parse_udp_uri uri [] [] = Some (ok, host, port, lg)) \<and>
   (\<not> (\<exists>rest. uri = ''udp://'' @ rest) \<longrightarrow>
      parse_udp_uri uri [] [] = Some (False, [], [], [Log_must_start_with_udp]) \<and>
      make_udp_target uri env =
        Some (unready_target, [Log_must_start_with_udp, Log_invalid_uri_format], [])) \<and>
   (CHR '':'' \<notin> set rest \<longrightarrow>
      parse_udp_uri (''udp://'' @ rest) [] [] =
        Some (rest \<noteq> [], rest, ''7767'', [Log_parse_udp_uri rest ''7767''])) \<and>
   (CHR '':'' \<notin> set p \<longrightarrow>
      parse_udp_uri (''udp://'' @ h @ '':'' @ p) [] [] =
        Some (h \<noteq> [], h, (if p = [] then ''7767'' else p),
              [Log_parse_udp_uri h (if p = [] then ''7767'' else p)])) \<and>
   (parse_udp_uri uri [] [] = Some (ok, host, port, lg) \<longrightarrow>
      (ok \<longleftrightarrow> host \<noteq> []) \<and>
      (host = [] \<longrightarrow>
         make_udp_target uri env = Some (unready_target, lg @ [Log_invalid_uri_format], [])) \<and>
      (host = ''0.0.0.0'' \<or> host = ''::'' \<longrightarrow>
         make_udp_target uri env =
           Some (unready_target, lg @ [Log_refusing_unspecified host], [])))"
proof (intro conjI impI)
  show "\<exists>ok host port lg. parse_udp_uri uri [] [] = Some (ok, host, port, lg)"
    by (rule parse_udp_uri_total)
next
  assume "\<not> (\<exists>rest. uri = ''udp://'' @ rest)"
  then show "parse_udp_uri uri [] [] = Some (False, [], [], [Log_must_start_with_udp])"
    by (rule parse_udp_uri_no_scheme)
next
  assume "\<not> (\<exists>rest. uri = ''udp://'' @ rest)"
  then show "make_udp_target uri env =
        Some (unready_target, [Log_must_start_with_udp, Log_invalid_uri_format], [])"
    by (rule make_udp_target_no_scheme)
next
  assume "CHR '':'' \<notin> set rest"
  then show "parse_udp_uri (''udp://'' @ rest) [] [] =
        Some (rest \<noteq> [], rest, ''7767'', [Log_parse_udp_uri rest ''7767''])"
    by (rule parse_udp_uri_no_colon)
next
  assume "CHR '':'' \<notin> set p"
  then show "parse_udp_uri (''udp://'' @ h @ '':'' @ p) [] [] =
        Some (h \<noteq> [], h, (if p = [] then ''7767'' else p),
              [Log_parse_udp_uri h (if p = [] then ''7767'' else p)])"
    by (rule parse_udp_uri_last_colon)
next
  assume "parse_udp_uri uri [] [] = Some (ok, host, port, lg)"
  then show "ok \<longleftrightarrow> host \<noteq> []"
    by (rule parse_udp_uri_flag)
next
  assume P: "parse_udp_uri uri [] [] = Some (ok, host, port, lg)" and "host = []"
  then have "\<not> ok"
    using parse_udp_uri_flag [OF P] by simp
  then show "make_udp_target uri env = Some (unready_target, lg @ [Log_invalid_uri_format], [])"
    by (simp add: make_udp_target_parsed [OF P])
next
  assume P: "parse_udp_uri uri [] [] = Some (ok, host, port, lg)"
    and U: "host = ''0.0.0.0'' \<or> host = ''::''"
  then have "ok"
    using parse_udp_uri_flag [OF P] by auto
  with U show "make_udp_target uri env =
           Some (unready_target, lg @ [Log_refusing_unspecified host], [])"
    by (simp add: make_udp_target_parsed [OF P])
qed

theorem destination_uri_parsing_witness:
  "parse_udp_uri ''udp://127.0.0.1'' [] [] =
     Some (True, ''127.0.0.1'', ''7767'', [Log_parse_udp_uri ''127.0.0.1'' ''7767'']) \<and>
   parse_udp_uri ''udp://host:9999'' [] [] =
     Some (True, ''host'', ''9999'', [Log_parse_udp_uri ''host'' ''9999'']) \<and>
   parse_udp_uri ''udp://host:'' [] [] =
     Some (True, ''host'', ''7767'', [Log_parse_udp_uri ''host'' ''7767'']) \<and>
   parse_udp_uri ''udp://fe80::1:53'' [] [] =
     Some (True, ''fe80::1'', ''53'', [Log_parse_udp_uri ''fe80::1'' ''53'']) \<and>
   parse_udp_uri ''udp://:9'' [] [] = Some (False, [], ''9'', [Log_parse_udp_uri [] ''9'']) \<and>
   make_udp_target ''udp://:9'' loopback_resolver =
     Some (unready_target, [Log_parse_udp_uri [] ''9'', Log_invalid_uri_format], []) \<and>
   parse_udp_uri ''http://host'' [] [] = Some (False, [], [], [Log_must_start_with_udp]) \<and>
   make_udp_target ''http://host'' loopback_resolver =
     Some (unready_target, [Log_must_start_with_udp, Log_invalid_uri_format], []) \<and>
   make_udp_target ''udp://0.0.0.0'' loopback_resolver =
     Some (unready_target,
           [Log_parse_udp_uri ''0.0.0.0'' ''7767'', Log_refusing_unspecified ''0.0.0.0''], []) \<and>
   make_udp_target ''udp://:::7767'' loopback_resolver =
     Some (unready_target,
           [Log_parse_udp_uri ''::'' ''7767'', Log_refusing_unspecified ''::''], [])"
proof -
  note T = destination_uri_parsing
  have a: "parse_udp_uri ''udp://127.0.0.1'' [] [] =
     Some (True, ''127.0.0.1'', ''7767'', [Log_parse_udp_uri ''127.0.0.1'' ''7767''])"
    using T [of "''udp://127.0.0.1''" _ "''127.0.0.1''"] by simp
  have b: "parse_udp_uri ''udp://host:9999'' [] [] =
     Some (True, ''host'', ''9999'', [Log_parse_udp_uri ''host'' ''9999''])"
    using T [of "''udp://host:9999''" _ "[]" "''9999''" "''host''"] by simp
  have c: "parse_udp_uri ''udp://host:'' [] [] =
     Some (True, ''host'', ''7767'', [Log_parse_udp_uri ''host'' ''7767''])"
    using T [of "''udp://host:''" _ "[]" "[]" "''host''"] by simp
  have d: "parse_udp_uri ''udp://fe80::1:53'' [] [] =
     Some (True, ''fe80::1'', ''53'', [Log_parse_udp_uri ''fe80::1'' ''53''])"
    using T [of "''udp://fe80::1:53''" _ "[]" "''53''" "''fe80::1''"] by simp
  have e: "parse_udp_uri ''udp://:9'' [] [] = Some (False, [], ''9'', [Log_parse_udp_uri [] ''9''])"
    using T [of "''udp://:9''" _ "[]" "''9''" "[]"] by simp
  have e': "make_udp_target ''udp://:9'' loopback_resolver =
     Some (unready_target, [Log_parse_udp_uri [] ''9'', Log_invalid_uri_format], [])"
    using T [of "''udp://:9''" loopback_resolver "[]" "[]" "[]" False "[]" "''9''"
                "[Log_parse_udp_uri [] ''9'']"] e by simp
  have f: "parse_udp_uri ''http://host'' [] [] = Some (False, [], [], [Log_must_start_with_udp]) \<and>
     make_udp_target ''http://host'' loopback_resolver =
     Some (unready_target, [Log_must_start_with_udp, Log_invalid_uri_format], [])"
    using T [of "''http://host''" loopback_resolver "[]" "[]" "[]"] by simp
  have g0: "parse_udp_uri ''udp://0.0.0.0'' [] [] =
     Some (True, ''0.0.0.0'', ''7767'', [Log_parse_udp_uri ''0.0.0.0'' ''7767''])"
    using T [of "''udp://0.0.0.0''" _ "''0.0.0.0''"] by simp
  have g: "make_udp_target ''udp://0.0.0.0'' loopback_resolver =
     Some (unready_target,
           [Log_parse_udp_uri ''0.0.0.0'' ''7767'', Log_refusing_unspecified ''0.0.0.0''], [])"
    using T [of "''udp://0.0.0.0''" loopback_resolver "[]" "[]" "[]" True "''0.0.0.0''" "''7767''"
                "[Log_parse_udp_uri ''0.0.0.0'' ''7767'']"] g0 by simp
  have h0: "parse_udp_uri ''udp://:::7767'' [] [] =
     Some (True, ''::'', ''7767'', [Log_parse_udp_uri ''::'' ''7767''])"
    using T [of "''udp://:::7767''" _ "[]" "''7767''" "''::''"] by simp
  have h: "make_udp_target ''udp://:::7767'' loopback_resolver =
     Some (unready_target,
           [Log_parse_udp_uri ''::'' ''7767'', Log_refusing_unspecified ''::''], [])"
    using T [of "''udp://:::7767''" loopback_resolver "[]" "[]" "[]" True "''::''" "''7767''"
                "[Log_parse_udp_uri ''::'' ''7767'']"] h0 by simp
  from a b c d e e' f g h show ?thesis by blast
qed

section \<open>The packets built by the callbacks\<close>

lemma uint_p25_nac: "uint (p25_nac x) = uint x mod 4096"
proof -
  have "uint (x AND mask 12) = uint x mod 4096"
    unfolding take_bit_eq_mask [symmetric] unsigned_take_bit_eq
    by (simp add: take_bit_eq_mod)
  moreover have "uint x mod 4096 < 2 ^ 16"
  proof -
    have "uint x mod 4096 < 4096" by simp
    then show ?thesis by simp
  qed
  ultimately show ?thesis
    unfolding p25_nac_def mask_FFF
    by (simp add: unsigned_ucast_eq take_bit_eq_mod)
qed

lemma p25_nac_bound: "unat (p25_nac x) < 4096"
proof -
  have "uint (p25_nac x) < 4096"
    unfolding uint_p25_nac by simp
  moreover have "uint (p25_nac x) = int (unat (p25_nac x))"
    by (rule uint_nat)
  ultimately show ?thesis
    by linarith
qed

lemma p25_nac_top_bits: "p25_nac x AND 0xF000 = 0"
proof -
  have F: "(0xF000 :: u16) = push_bit 12 (mask 4)"
    by (simp add: mask_eq_exp_minus_1)
  show ?thesis
    unfolding p25_nac_def mask_FFF F
    by (rule bit_word_eqI) (auto simp add: bit_simps)
qed

lemma pkt_of_system_fields:
  "hdr (pkt_of_system t sys) = (CHR ''M'', CHR ''C'')"
  "typ' (pkt_of_system t sys) = t"
  "len (pkt_of_system t sys) = 5"
  "nac (pkt_of_system t sys) = p25_nac (word_of_int (get_nac sys))"
  "p25Id (pkt_of_system t sys) =
     make_p25id (word_of_int (get_sys_site_id sys)) (word_of_int (get_wacn sys))"
  "tgId (pkt_of_system t sys) = 0"
  by (simp_all add: pkt_of_system_def Packet_default_def)

lemma produced_ok_pkt_of_system:
  "t \<noteq> Type_Invalid \<Longrightarrow> produced_ok (pkt_of_system t sys)"
  by (simp add: produced_ok_def pkt_of_system_fields valid_hdr_def payload_bytes_def
      sizeof_Packet_def Type_code_ge_1 Type_code_le_8 p25_nac_top_bits p25_nac_bound)

lemma produced_ok_update:
  "produced_ok (pkt\<lparr>tgId := a\<rparr>) = produced_ok pkt"
  "produced_ok (pkt\<lparr>radioId := b\<rparr>) = produced_ok pkt"
  "produced_ok (pkt\<lparr>ts := c\<rparr>) = produced_ok pkt"
  by (simp_all add: produced_ok_def valid_hdr_def payload_bytes_def)

lemma uint_nac_of_host: "uint (p25_nac (word_of_int k)) = k mod 4096"
proof -
  have "uint (word_of_int k :: u32) = k mod 2 ^ 32"
    by (simp add: uint_word_of_int)
  moreover have "(k mod 2 ^ 32) mod 4096 = k mod 4096"
    by (rule mod_mod_cancel) simp
  ultimately show ?thesis
    unfolding uint_p25_nac by simp
qed

lemma nac_of_host_masked: "p25_nac (word_of_int k) = word_of_int k AND 0x0FFF"
proof -
  have "uint (word_of_int k AND mask 12 :: u16) = uint (word_of_int k :: u16) mod 4096"
    unfolding take_bit_eq_mask [symmetric] unsigned_take_bit_eq
    by (simp add: take_bit_eq_mod)
  moreover have "uint (word_of_int k :: u16) = k mod 2 ^ 16"
    by (simp add: uint_word_of_int)
  moreover have "(k mod 2 ^ 16) mod 4096 = k mod 4096"
    by (rule mod_mod_cancel) simp
  ultimately have "uint (word_of_int k AND mask 12 :: u16) = uint (p25_nac (word_of_int k))"
    unfolding uint_nac_of_host by simp
  then show ?thesis
    unfolding mask_FFF by (simp add: word_uint_eq_iff)
qed

lemma nac_of_pkts:
  "nac (call_start_pkt call sid now) = p25_nac (word_of_int (get_nac (get_system call)))"
  "nac (unit_registration_pkt sys source_id now) = p25_nac (word_of_int (get_nac sys))"
  "nac (unit_deregistration_pkt sys source_id now) = p25_nac (word_of_int (get_nac sys))"
  "nac (unit_acknowledge_response_pkt sys source_id now) = p25_nac (word_of_int (get_nac sys))"
  "nac (unit_group_affiliation_pkt sys source_id talkgroup_num now) =
     p25_nac (word_of_int (get_nac sys))"
  "nac (unit_data_grant_pkt sys source_id now) = p25_nac (word_of_int (get_nac sys))"
  "nac (unit_answer_request_pkt sys source_id talkgroup_num now) =
     p25_nac (word_of_int (get_nac sys))"
  "nac (unit_location_pkt sys source_id talkgroup_num now) = p25_nac (word_of_int (get_nac sys))"
  by (simp_all add: call_start_pkt_def unit_registration_pkt_def unit_deregistration_pkt_def
      unit_acknowledge_response_pkt_def unit_group_affiliation_pkt_def unit_data_grant_pkt_def
      unit_answer_request_pkt_def unit_location_pkt_def pkt_of_system_fields)

lemma typ_of_pkts:
  "typ' (call_start_pkt call sid now) = Unit_PTTP"
  "typ' (unit_registration_pkt sys source_id now) = Unit_On"
  "typ' (unit_deregistration_pkt sys source_id now) = Unit_Off"
  "typ' (unit_acknowledge_response_pkt sys source_id now) = Unit_AckResp"
  "typ' (unit_group_affiliation_pkt sys source_id talkgroup_num now) = Unit_Join"
  "typ' (unit_data_grant_pkt sys source_id now) = Unit_Data"
  "typ' (unit_answer_request_pkt sys source_id talkgroup_num now) = Unit_AnsReq"
  "typ' (unit_location_pkt sys source_id talkgroup_num now) = Unit_Location"
  by (simp_all add: call_start_pkt_def unit_registration_pkt_def unit_deregistration_pkt_def
      unit_acknowledge_response_pkt_def unit_group_affiliation_pkt_def unit_data_grant_pkt_def
      unit_answer_request_pkt_def unit_location_pkt_def pkt_of_system_fields)

text \<open>With units enabled, each callback hands the packet it built to \<^verbatim>\<open>send_packet\<close>.\<close>

lemma unit_callbacks_dispatch:
  assumes "unit_enabled st"
  shows "unit_registration st sys source_id now os =
           send_packet st (unit_registration_pkt sys source_id now) os"
    and "unit_deregistration st sys source_id now os =
           send_packet st (unit_deregistration_pkt sys source_id now) os"
    and "unit_acknowledge_response st sys source_id now os =
           send_packet st (unit_acknowledge_response_pkt sys source_id now) os"
    and "unit_data_grant st sys source_id now os =
           send_packet st (unit_data_grant_pkt sys source_id now) os"
    and "unit_group_affiliation st sys source_id talkgroup_num now os =
           send_packet st (unit_group_affiliation_pkt sys source_id talkgroup_num now) os"
    and "unit_answer_request st sys source_id talkgroup_num now os =
           send_packet st (unit_answer_request_pkt sys source_id talkgroup_num now) os"
    and "unit_location st sys source_id talkgroup_num now os =
           send_packet st (unit_location_pkt sys source_id talkgroup_num now) os"
  using assms
  by (simp_all add: unit_registration_def unit_deregistration_def unit_acknowledge_response_def
      unit_data_grant_def unit_group_affiliation_def unit_answer_request_def unit_location_def)

lemma call_start_dispatch:
  assumes "unit_enabled st"
  shows "get_stats_srcId call = Some sid \<Longrightarrow>
         call_start st call now os = Some (send_packet st (call_start_pkt call sid now) os)"
    and "get_stats_srcId call = None \<Longrightarrow> call_start st call now os = None"
  using assms by (simp_all add: call_start_def)

text \<open>
  C7. Every packet built by one of the eight callbacks and handed to \<^verbatim>\<open>send_packet\<close>
  has the magic bytes 'M','C', the length byte 5 (so \<^verbatim>\<open>payload_bytes\<close> is 20, the size of
  the packet), a type whose code is between 1 and 8 (never \<^verbatim>\<open>Type_Invalid\<close>: each callback
  stores its own enumerator), and a NAC that is the host's NAC masked to 12 bits, that
  is the host's value and 0x0FFF, its value modulo 4096, so that the top four bits are
  zero, for every value the host supplies. With units enabled these are the packets
  the callbacks hand to \<^verbatim>\<open>send_packet\<close>.
\<close>

theorem produced_packet_invariant:
  "(\<forall>pkt \<in> set [call_start_pkt call sid now,
                 unit_registration_pkt sys source_id now,
                 unit_deregistration_pkt sys source_id now,
                 unit_acknowledge_response_pkt sys source_id now,
                 unit_group_affiliation_pkt sys source_id talkgroup_num now,
                 unit_data_grant_pkt sys source_id now,
                 unit_answer_request_pkt sys source_id talkgroup_num now,
                 unit_location_pkt sys source_id talkgroup_num now].
     hdr pkt = (CHR ''M'', CHR ''C'') \<and> valid_hdr pkt \<and>
     len pkt = 5 \<and> payload_bytes pkt = sizeof_Packet \<and>
     1 \<le> Type_code (typ' pkt) \<and> Type_code (typ' pkt) \<le> 8 \<and> typ' pkt \<noteq> Type_Invalid \<and>
     nac pkt AND 0xF000 = 0 \<and> unat (nac pkt) < 4096) \<and>
   (\<forall>pkt \<in> set [unit_registration_pkt sys source_id now,
                 unit_deregistration_pkt sys source_id now,
                 unit_acknowledge_response_pkt sys source_id now,
                 unit_group_affiliation_pkt sys source_id talkgroup_num now,
                 unit_data_grant_pkt sys source_id now,
                 unit_answer_request_pkt sys source_id talkgroup_num now,
                 unit_location_pkt sys source_id talkgroup_num now].
     nac pkt = word_of_int (get_nac sys) AND 0x0FFF \<and>
     uint (nac pkt) = get_nac sys mod 4096) \<and>
   nac (call_start_pkt call sid now) = word_of_int (get_nac (get_system call)) AND 0x0FFF \<and>
   uint (nac (call_start_pkt call sid now)) = get_nac (get_system call) mod 4096 \<and>
   map typ' [call_start_pkt call sid now,
             unit_registration_pkt sys source_id now,
             unit_deregistration_pkt sys source_id now,
             unit_acknowledge_response_pkt sys source_id now,
             unit_group_affiliation_pkt sys source_id talkgroup_num now,
             unit_data_grant_pkt sys source_id now,
             unit_answer_request_pkt sys source_id talkgroup_num now,
             unit_location_pkt sys source_id talkgroup_num now] =
     [Unit_PTTP, Unit_On, Unit_Off, Unit_AckResp, Unit_Join, Unit_Data, Unit_AnsReq,
      Unit_Location] \<and>
   (unit_enabled st \<longrightarrow>
      unit_registration st sys source_id now os =
        send_packet st (unit_registration_pkt sys source_id now) os \<and>
      unit_deregistration st sys source_id now os =
        send_packet st (unit_deregistration_pkt sys source_id now) os \<and>
      unit_acknowledge_response st sys source_id now os =
        send_packet st (unit_acknowledge_response_pkt sys source_id now) os \<and>
      unit_data_grant st sys source_id now os =
        send_packet st (unit_data_grant_pkt sys source_id now) os \<and>
      unit_group_affiliation st sys source_id talkgroup_num now os =
        send_packet st (unit_group_affiliation_pkt sys source_id talkgroup_num now) os \<and>
      unit_answer_request st sys source_id talkgroup_num now os =
        send_packet st (unit_answer_request_pkt sys source_id talkgroup_num now) os \<and>
      unit_location st sys source_id talkgroup_num now os =
        send_packet st (unit_location_pkt sys source_id talkgroup_num now) os \<and>
      (get_stats_srcId call = Some sid \<longrightarrow>
         call_start st call now os = Some (send_packet st (call_start_pkt call sid now) os)))"
proof (intro conjI impI)
  show "\<forall>pkt \<in> set [call_start_pkt call sid now,
                 unit_registration_pkt sys source_id now,
                 unit_deregistration_pkt sys source_id now,
                 unit_acknowledge_response_pkt sys source_id now,
                 unit_group_affiliation_pkt sys source_id talkgroup_num now,
                 unit_data_grant_pkt sys source_id now,
                 unit_answer_request_pkt sys source_id talkgroup_num now,
                 unit_location_pkt sys source_id talkgroup_num now].
     hdr pkt = (CHR ''M'', CHR ''C'') \<and> valid_hdr pkt \<and>
     len pkt = 5 \<and> payload_bytes pkt = sizeof_Packet \<and>
     1 \<le> Type_code (typ' pkt) \<and> Type_code (typ' pkt) \<le> 8 \<and> typ' pkt \<noteq> Type_Invalid \<and>
     nac pkt AND 0xF000 = 0 \<and> unat (nac pkt) < 4096"
    unfolding produced_ok_def [symmetric]
    by (simp add: call_start_pkt_def unit_registration_pkt_def unit_deregistration_pkt_def
        unit_acknowledge_response_pkt_def unit_group_affiliation_pkt_def unit_data_grant_pkt_def
        unit_answer_request_pkt_def unit_location_pkt_def produced_ok_update
        produced_ok_pkt_of_system)
next
  show "\<forall>pkt \<in> set [unit_registration_pkt sys source_id now,
                 unit_deregistration_pkt sys source_id now,
                 unit_acknowledge_response_pkt sys source_id now,
                 unit_group_affiliation_pkt sys source_id talkgroup_num now,
                 unit_data_grant_pkt sys source_id now,
                 unit_answer_request_pkt sys source_id talkgroup_num now,
                 unit_location_pkt sys source_id talkgroup_num now].
     nac pkt = word_of_int (get_nac sys) AND 0x0FFF \<and>
     uint (nac pkt) = get_nac sys mod 4096"
    by (simp add: nac_of_pkts uint_nac_of_host nac_of_host_masked [symmetric])
next
  show "nac (call_start_pkt call sid now) = word_of_int (get_nac (get_system call)) AND 0x0FFF"
    by (simp add: nac_of_pkts nac_of_host_masked)
next
  show "uint (nac (call_start_pkt call sid now)) = get_nac (get_system call) mod 4096"
    by (simp add: nac_of_pkts uint_nac_of_host)
next
  show "map typ' [call_start_pkt call sid now,
             unit_registration_pkt sys source_id now,
             unit_deregistration_pkt sys source_id now,
             unit_acknowledge_response_pkt sys source_id now,
             unit_group_affiliation_pkt sys source_id talkgroup_num now,
             unit_data_grant_pkt sys source_id now,
             unit_answer_request_pkt sys source_id talkgroup_num now,
             unit_location_pkt sys source_id talkgroup_num now] =
     [Unit_PTTP, Unit_On, Unit_Off, Unit_AckResp, Unit_Join, Unit_Data, Unit_AnsReq,
      Unit_Location]"
    by (simp add: typ_of_pkts)
qed (simp_all add: unit_callbacks_dispatch call_start_dispatch)

theorem produced_packet_invariant_witness:
  "registered_pkt \<in> set [call_start_pkt ptt_call 7 1700000000,
                          unit_registration_pkt site3 123456 1700000000,
                          unit_deregistration_pkt site3 123456 1700000000,
                          unit_acknowledge_response_pkt site3 123456 1700000000,
                          unit_group_affiliation_pkt site3 123456 1 1700000000,
                          unit_data_grant_pkt site3 123456 1700000000,
                          unit_answer_request_pkt site3 123456 1 1700000000,
                          unit_location_pkt site3 123456 1 1700000000] \<and>
   hdr registered_pkt = (CHR ''M'', CHR ''C'') \<and> len registered_pkt = 5 \<and>
   payload_bytes registered_pkt = 20 \<and> typ' registered_pkt = Unit_On \<and>
   Type_code (typ' registered_pkt) = 1 \<and>
   nac registered_pkt AND 0xF000 = 0 \<and> unat (nac registered_pkt) < 4096 \<and>
   uint (nac registered_pkt) = 240 \<and>
   uint (nac (call_start_pkt ptt_call 7 1700000000)) = 240 \<and>
   unit_enabled ready_plugin \<and>
   unit_registration ready_plugin site3 123456 1700000000 (20, 0) =
     send_packet ready_plugin registered_pkt (20, 0) \<and>
   get_stats_srcId ptt_call = Some 7 \<and>
   call_start ready_plugin ptt_call 1700000000 (20, 0) =
     Some (send_packet ready_plugin (call_start_pkt ptt_call 7 1700000000) (20, 0))"
proof -
  note T = produced_packet_invariant
             [of ptt_call 7 1700000000 site3 123456 1 ready_plugin "(20, 0)"]
  note all8 = T [THEN conjunct1]
  note all7 = T [THEN conjunct2, THEN conjunct1]
  note cs_nac = T [THEN conjunct2, THEN conjunct2, THEN conjunct2, THEN conjunct1]
  note types = T [THEN conjunct2, THEN conjunct2, THEN conjunct2, THEN conjunct2, THEN conjunct1]
  note sends = T [THEN conjunct2, THEN conjunct2, THEN conjunct2, THEN conjunct2, THEN conjunct2]
  have e: "unit_enabled ready_plugin"
    by (simp add: ready_plugin_def)
  have c: "get_stats_srcId ptt_call = Some 7"
    by (simp add: ptt_call_def)
  have n: "get_nac site3 mod 4096 = 240" "get_nac (get_system ptt_call) mod 4096 = 240"
    by (simp_all add: ptt_call_def site3_def)
  have r: "registered_pkt = unit_registration_pkt site3 123456 1700000000"
    by (simp add: registered_pkt_def)
  have m8: "registered_pkt \<in> set [call_start_pkt ptt_call 7 1700000000,
                          unit_registration_pkt site3 123456 1700000000,
                          unit_deregistration_pkt site3 123456 1700000000,
                          unit_acknowledge_response_pkt site3 123456 1700000000,
                          unit_group_affiliation_pkt site3 123456 1 1700000000,
                          unit_data_grant_pkt site3 123456 1700000000,
                          unit_answer_request_pkt site3 123456 1 1700000000,
                          unit_location_pkt site3 123456 1 1700000000]"
    unfolding r by simp
  have m7: "registered_pkt \<in> set [unit_registration_pkt site3 123456 1700000000,
                          unit_deregistration_pkt site3 123456 1700000000,
                          unit_acknowledge_response_pkt site3 123456 1700000000,
                          unit_group_affiliation_pkt site3 123456 1 1700000000,
                          unit_data_grant_pkt site3 123456 1700000000,
                          unit_answer_request_pkt site3 123456 1 1700000000,
                          unit_location_pkt site3 123456 1 1700000000]"
    unfolding r by simp
  note p8 = bspec [OF all8 m8]
  note p7 = bspec [OF all7 m7]
  have t: "typ' registered_pkt = Unit_On"
    using types unfolding r by simp
  have code: "Type_code (typ' registered_pkt) = 1"
    unfolding t by simp
  have bytes: "payload_bytes registered_pkt = 20"
    using p8 by (simp add: sizeof_Packet_def)
  have nu: "uint (nac registered_pkt) = 240"
    using p7 [THEN conjunct2] unfolding n(1) .
  have cu: "uint (nac (call_start_pkt ptt_call 7 1700000000)) = 240"
    using cs_nac unfolding n(2) .
  have s1: "unit_registration ready_plugin site3 123456 1700000000 (20, 0) =
     send_packet ready_plugin registered_pkt (20, 0)"
    using sends e unfolding r by blast
  have s2: "call_start ready_plugin ptt_call 1700000000 (20, 0) =
     Some (send_packet ready_plugin (call_start_pkt ptt_call 7 1700000000) (20, 0))"
    using sends e c by blast
  from m8 p8 t code bytes nu cu e s1 c s2 show ?thesis
    by blast
qed

text \<open>
  C10, as the claim states it, fails for \<^verbatim>\<open>call_start\<close>: there the source id is not a
  \<^verbatim>\<open>long\<close> that is narrowed but a \<^verbatim>\<open>u32\<close> read from the call's statistics, and when
  that read throws the callback ends with the exception: no packet is built and
  nothing is handed to \<^verbatim>\<open>send_packet\<close>, although units are enabled and the endpoint is
  ready.
\<close>

theorem call_start_rejects_counterexample:
  "unit_enabled ready_plugin \<and> endpoint_ready ready_plugin \<and>
   get_stats_srcId unreadable_call = None \<and>
   call_start ready_plugin unreadable_call 1700000000 (20, 0) = None"
  using endpoint_ready_ready_plugin
  by (simp add: call_start_def unreadable_call_def ready_plugin_def)

text \<open>
  C10, amended. In the seven unit callbacks the host's source id is stored into the
  32-bit \<^verbatim>\<open>radioId\<close> reduced modulo 2^32 and the current time into the 32-bit \<^verbatim>\<open>ts\<close>
  reduced modulo 2^32; the three that take a talkgroup number store it into the 16-bit
  \<^verbatim>\<open>tgId\<close> reduced modulo 2^16 and the other four leave \<^verbatim>\<open>tgId\<close> at 0. No value is
  rejected there: with units enabled each of them hands the packet so built to
  \<^verbatim>\<open>send_packet\<close>. \<^verbatim>\<open>call_start\<close> narrows the talkgroup number and the time in the same
  way, but its source id is the \<^verbatim>\<open>u32\<close> read from the call's statistics, stored as it
  is; when the read succeeds the packet is handed to \<^verbatim>\<open>send_packet\<close>, and when it throws
  the callback ends with the exception and dispatches nothing.
\<close>

theorem silent_narrowing:
  "(\<forall>pkt \<in> set [unit_registration_pkt sys source_id now,
                  unit_deregistration_pkt sys source_id now,
                  unit_acknowledge_response_pkt sys source_id now,
                  unit_data_grant_pkt sys source_id now].
      tgId pkt = 0 \<and>
      uint (radioId pkt) = source_id mod 2 ^ 32 \<and>
      uint (ts pkt) = now mod 2 ^ 32) \<and>
   (\<forall>pkt \<in> set [unit_group_affiliation_pkt sys source_id talkgroup_num now,
                  unit_answer_request_pkt sys source_id talkgroup_num now,
                  unit_location_pkt sys source_id talkgroup_num now].
      uint (tgId pkt) = talkgroup_num mod 2 ^ 16 \<and>
      uint (radioId pkt) = source_id mod 2 ^ 32 \<and>
      uint (ts pkt) = now mod 2 ^ 32) \<and>
   uint (tgId (call_start_pkt call sid now)) = get_talkgroup call mod 2 ^ 16 \<and>
   radioId (call_start_pkt call sid now) = sid \<and>
   uint (ts (call_start_pkt call sid now)) = now mod 2 ^ 32 \<and>
   (unit_enabled st \<longrightarrow>
      unit_registration st sys source_id now os =
        send_packet st (unit_registration_pkt sys source_id now) os \<and>
      unit_deregistration st sys source_id now os =
        send_packet st (unit_deregistration_pkt sys source_id now) os \<and>
      unit_acknowledge_response st sys source_id now os =
        send_packet st (unit_acknowledge_response_pkt sys source_id now) os \<and>
      unit_data_grant st sys source_id now os =
        send_packet st (unit_data_grant_pkt sys source_id now) os \<and>
      unit_group_affiliation st sys source_id talkgroup_num now os =
        send_packet st (unit_group_affiliation_pkt sys source_id talkgroup_num now) os \<and>
      unit_answer_request st sys source_id talkgroup_num now os =
        send_packet st (unit_answer_request_pkt sys source_id talkgroup_num now) os \<and>
      unit_location st sys source_id talkgroup_num now os =
        send_packet st (unit_location_pkt sys source_id talkgroup_num now) os \<and>
      (get_stats_srcId call = Some sid \<longrightarrow>
         call_start st call now os = Some (send_packet st (call_start_pkt call sid now) os)) \<and>
      (get_stats_srcId call = None \<longrightarrow> call_start st call now os = None))"
proof (intro conjI impI)
  show "\<forall>pkt \<in> set [unit_registration_pkt sys source_id now,
                  unit_deregistration_pkt sys source_id now,
                  unit_acknowledge_response_pkt sys source_id now,
                  unit_data_grant_pkt sys source_id now].
      tgId pkt = 0 \<and>
      uint (radioId pkt) = source_id mod 2 ^ 32 \<and>
      uint (ts pkt) = now mod 2 ^ 32"
    by (simp add: unit_registration_pkt_def unit_deregistration_pkt_def
        unit_acknowledge_response_pkt_def unit_data_grant_pkt_def uint_word_of_int
        pkt_of_system_fields)
next
  show "\<forall>pkt \<in> set [unit_group_affiliation_pkt sys source_id talkgroup_num now,
                  unit_answer_request_pkt sys source_id talkgroup_num now,
                  unit_location_pkt sys source_id talkgroup_num now].
      uint (tgId pkt) = talkgroup_num mod 2 ^ 16 \<and>
      uint (radioId pkt) = source_id mod 2 ^ 32 \<and>
      uint (ts pkt) = now mod 2 ^ 32"
    by (simp add: unit_group_affiliation_pkt_def unit_answer_request_pkt_def
        unit_location_pkt_def uint_word_of_int)
next
  show "uint (tgId (call_start_pkt call sid now)) = get_talkgroup call mod 2 ^ 16"
    by (simp add: call_start_pkt_def uint_word_of_int)
next
  show "radioId (call_start_pkt call sid now) = sid"
    by (simp add: call_start_pkt_def)
next
  show "uint (ts (call_start_pkt call sid now)) = now mod 2 ^ 32"
    by (simp add: call_start_pkt_def uint_word_of_int)
qed (simp_all add: unit_callbacks_dispatch call_start_dispatch)

theorem silent_narrowing_witness:
  "tgId (unit_registration_pkt site3 4294967301 5994967296) = 0 \<and>
   uint (radioId (unit_registration_pkt site3 4294967301 5994967296)) = 5 \<and>
   uint (ts (unit_registration_pkt site3 4294967301 5994967296)) = 1700000000 \<and>
   uint (tgId (unit_group_affiliation_pkt site3 4294967301 70000 5994967296)) = 4464 \<and>
   uint (radioId (unit_group_affiliation_pkt site3 4294967301 70000 5994967296)) = 5 \<and>
   uint (ts (unit_group_affiliation_pkt site3 4294967301 70000 5994967296)) = 1700000000 \<and>
   uint (tgId (unit_location_pkt site3 (- 1) (- 1) 0)) = 65535 \<and>
   uint (radioId (unit_location_pkt site3 (- 1) (- 1) 0)) = 4294967295 \<and>
   uint (tgId (call_start_pkt ptt_call 7 5994967296)) = 4464 \<and>
   unit_enabled ready_plugin \<and>
   unit_group_affiliation ready_plugin site3 4294967301 70000 5994967296 (20, 0) =
     send_packet ready_plugin (unit_group_affiliation_pkt site3 4294967301 70000 5994967296) (20, 0) \<and>
   get_stats_srcId ptt_call = Some 7 \<and>
   call_start ready_plugin ptt_call 5994967296 (20, 0) =
     Some (send_packet ready_plugin (call_start_pkt ptt_call 7 5994967296) (20, 0)) \<and>
   get_stats_srcId (ptt_call\<lparr>get_stats_srcId := None\<rparr>) = None \<and>
   call_start ready_plugin (ptt_call\<lparr>get_stats_srcId := None\<rparr>) 5994967296 (20, 0) = None"
proof -
  have e: "unit_enabled ready_plugin"
    by (simp add: ready_plugin_def)
  have c: "get_stats_srcId ptt_call = Some 7" "get_talkgroup ptt_call = 70000"
    by (simp_all add: ptt_call_def)
  show ?thesis
    using silent_narrowing [of site3 4294967301 5994967296 70000 ptt_call 7 ready_plugin "(20, 0)"]
      silent_narrowing [of site3 "- 1" 0 "- 1"]
      silent_narrowing [of site3 1 5994967296 1 "ptt_call\<lparr>get_stats_srcId := None\<rparr>" 7
                           ready_plugin "(20, 0)"]
      e c
    by simp
qed

end
